theory Spec2Isabelle
  imports Main "HOL-Library.Word"
begin

unbundle bit_operations_syntax

section \<open>Common vocabulary\<close>

text \<open>
  Strings of the program are byte strings here: a JavaScript string is held as its
  UTF-8 encoding, one \<open>char\<close> per byte.  The Korean texts of the source are written
  as their UTF-8 bytes through \<open>utf8\<close>.
\<close>

definition utf8 :: "nat list \<Rightarrow> string" where
  "utf8 bs = map char_of bs"

text \<open>
  A field read from an object of the program is \<open>None\<close> when it is \<open>undefined\<close>.
  JavaScript's \<open>!x\<close> on such a string field holds for \<open>undefined\<close> and for the
  empty string.
\<close>

definition falsy :: "string option \<Rightarrow> bool" where
  "falsy x = (case x of None \<Rightarrow> True | Some s \<Rightarrow> s = [])"

text \<open>The lifecycle states of the inbox and outbox rows (column \<open>status\<close>).\<close>

datatype status = PENDING | SENT | SUCCESS | FAILED

section \<open>responseUtils.js: typed NACK codes\<close>

text \<open>
  An \<open>Error\<close> object of the program: its \<open>name\<close> and its \<open>message\<close>.  The four
  custom error classes set \<open>name\<close> to their class name; any other error (a database
  error, a \<open>TypeError\<close>, ...) carries some other name.
\<close>

record js_error =
  err_name :: string
  err_message :: string


definition ProfileError :: "string \<Rightarrow> js_error" where
  "ProfileError m = \<lparr>err_name = ''ProfileError'', err_message = m\<rparr>"



definition Error :: "string \<Rightarrow> js_error" where
  "Error m = \<lparr>err_name = ''Error'', err_message = m\<rparr>"

record response_code =
  resultCode :: string
  resultText :: string
  noteCode :: string
  noteMessage :: string

definition note_ok :: string where
  "note_ok = utf8 [235, 169, 148, 236, 139, 156, 236, 167, 128, 32, 236, 136, 152, 236, 139,
     160, 32, 237, 153, 149, 236, 157, 184]"

definition note_validation :: string where
  "note_validation = utf8 [235, 169, 148, 236, 139, 156, 236, 167, 128, 32, 236, 156, 160,
     237, 154, 168, 236, 132, 177, 32, 236, 152, 164, 235, 165, 152, 58, 32]"

definition note_profile :: string where
  "note_profile = utf8 [237, 148, 132, 235, 161, 156, 237, 140, 140, 236, 157, 188, 32, 237,
     149, 180, 236, 132, 157, 32, 236, 152, 164, 235, 165, 152, 58, 32]"

definition note_duplicate :: string where
  "note_duplicate = utf8 [235, 169, 148, 236, 139, 156, 236, 167, 128, 32, 236, 164, 145,
     235, 179, 181, 32, 237, 153, 149, 236, 157, 184, 58, 32]"

definition note_parsing :: string where
  "note_parsing = utf8 [67, 65, 80, 32, 237, 140, 140, 236, 139, 177, 32, 236, 139, 164, 237,
     140, 168, 58, 32]"

definition note_internal :: string where
  "note_internal = utf8 [236, 158, 172, 235, 130, 156, 32, 236, 160, 149, 235, 179, 180, 32,
     234, 178, 140, 236, 157, 180, 237, 138, 184, 236, 155, 168, 236, 157, 180, 32, 235, 130,
     180, 235, 182, 128, 32, 236, 152, 164, 235, 165, 152, 58, 32]"

text \<open>
  \<open>_mapErrorToResponseCode(error)\<close>: no error is success; otherwise the \<open>switch\<close>
  on \<open>error.name\<close>, in the order of the source, with its \<open>default\<close> branch.
\<close>

definition mapErrorToResponseCode :: "js_error option \<Rightarrow> response_code" where
  "mapErrorToResponseCode error =
     (case error of
        None \<Rightarrow> \<lparr>resultCode = ''200'', resultText = ''OK'', noteCode = ''000'',
                  noteMessage = note_ok\<rparr>
      | Some e \<Rightarrow>
         (if err_name e = ''ValidationError'' then
            \<lparr>resultCode = ''400'', resultText = ''Bad Request'', noteCode = ''210'',
             noteMessage = note_validation @ err_message e\<rparr>
          else if err_name e = ''ProfileError'' then
            \<lparr>resultCode = ''400'', resultText = ''Bad Request'', noteCode = ''220'',
             noteMessage = note_profile @ err_message e\<rparr>
          else if err_name e = ''DuplicateMessageError'' then
            \<lparr>resultCode = ''400'', resultText = ''Bad Request'', noteCode = ''300'',
             noteMessage = note_duplicate @ err_message e\<rparr>
          else if err_name e = ''ParsingError'' then
            \<lparr>resultCode = ''500'', resultText = ''Internal Server Error'', noteCode = ''810'',
             noteMessage = note_parsing @ err_message e\<rparr>
          else
            \<lparr>resultCode = ''500'', resultText = ''Internal Server Error'', noteCode = ''810'',
             noteMessage = note_internal @ err_message e\<rparr>))"

section \<open>protocolUtils.js and protocolParser.js: the framed wire protocol\<close>

type_synonym byte = "8 word"

text \<open>
  The header constants of \<open>config.tcp.protocol\<close>.  \<open>MAGIC_NUMBER\<close> is read from the
  environment and \<open>DATA_FORMAT\<close> is a configured value, so both are fields of a
  configuration record; \<open>HEADER_LENGTH\<close> and \<open>MAX_BODY_LENGTH\<close> are the literals of
  the configuration file.
\<close>

record header_config =
  DATA_FORMAT :: nat
  MAGIC_NUMBER :: nat

definition HEADER_LENGTH :: nat where
  "HEADER_LENGTH = 16"

definition MAX_BODY_LENGTH :: nat where
  "MAX_BODY_LENGTH = 20 * 1024 * 1024"

text \<open>
  \<open>Buffer.writeUInt32BE(value)\<close>: the four bytes of the value, most significant first;
  a value outside \<open>0 .. 2^32 - 1\<close> raises \<open>RangeError\<close> (\<open>None\<close>).
\<close>

definition writeUInt32BE :: "nat \<Rightarrow> byte list option" where
  "writeUInt32BE v =
     (if v < 2 ^ 32
      then Some [of_nat (v div 2 ^ 24), of_nat (v div 2 ^ 16), of_nat (v div 2 ^ 8), of_nat v]
      else None)"

text \<open>
  \<open>buf.readUint32BE(offset)\<close>: \<open>RangeError\<close> (\<open>None\<close>) when the four bytes are not
  all inside the buffer.
\<close>

definition readUint32BE :: "byte list \<Rightarrow> nat \<Rightarrow> nat option" where
  "readUint32BE buf off =
     (if off + 4 \<le> length buf
      then Some (unat (buf ! off) * 2 ^ 24 + unat (buf ! (off + 1)) * 2 ^ 16
                 + unat (buf ! (off + 2)) * 2 ^ 8 + unat (buf ! (off + 3)))
      else None)"

text \<open>
  \<open>buildMessageBuffer(messageId, xmlObject)\<close>.  The XML text comes from the
  \<open>xmlbuilder2\<close> library; the model takes its UTF-8 bytes (\<open>bodyBuffer\<close>) as the
  argument.  Any exception inside the \<open>try\<close> block makes the function return
  \<open>null\<close> (\<open>None\<close>).
\<close>

definition buildMessageBuffer :: "header_config \<Rightarrow> nat \<Rightarrow> byte list \<Rightarrow> byte list option" where
  "buildMessageBuffer cfg messageId bodyBuffer =
     (case writeUInt32BE messageId of None \<Rightarrow> None | Some f0 \<Rightarrow>
     (case writeUInt32BE (DATA_FORMAT cfg) of None \<Rightarrow> None | Some f1 \<Rightarrow>
     (case writeUInt32BE (MAGIC_NUMBER cfg) of None \<Rightarrow> None | Some f2 \<Rightarrow>
     (case writeUInt32BE (length bodyBuffer) of None \<Rightarrow> None | Some f3 \<Rightarrow>
        Some (f0 @ f1 @ f2 @ f3 @ bodyBuffer)))))"

datatype parsing_state = HEADER | BODY

record msg_header =
  messageId :: nat
  dataFormat :: nat
  magicNumber :: nat
  dataLength :: nat

record complete_message =
  header :: msg_header
  body :: "byte list"

text \<open>The fields of a \<open>ProtocolParser\<close> instance.\<close>

record parser =
  buffer :: "byte list"
  neededLength :: nat
  parsingState :: parsing_state
  cur_header :: "msg_header option"

definition new_parser :: parser where
  "new_parser = \<lparr>buffer = [], neededLength = HEADER_LENGTH, parsingState = HEADER,
                  cur_header = None\<rparr>"

text \<open>
  \<open>emitCompleteMessage(bodyBuffer)\<close>: emits header and body and returns the parser to
  the \<open>HEADER\<close> state.  Reading \<open>this.header.dataLength\<close> on a \<open>null\<close> header raises
  \<open>TypeError\<close> (\<open>None\<close>).
\<close>

definition emitCompleteMessage :: "parser \<Rightarrow> byte list \<Rightarrow> (parser \<times> complete_message) option" where
  "emitCompleteMessage p bodyBuffer =
     (case cur_header p of
        None \<Rightarrow> None
      | Some h \<Rightarrow>
          Some (p\<lparr>cur_header := None, neededLength := HEADER_LENGTH, parsingState := HEADER\<rparr>,
                \<lparr>header = h, body = bodyBuffer\<rparr>))"

text \<open>
  \<open>_parseHeader()\<close>: \<open>None\<close> is a thrown error (bad magic number, oversize length,
  or a read outside the buffer); otherwise the new parser and the messages emitted.
\<close>

definition parseHeader :: "header_config \<Rightarrow> parser \<Rightarrow> (parser \<times> complete_message list) option" where
  "parseHeader cfg p =
     (let headerBuffer = take HEADER_LENGTH (buffer p) in
      (case readUint32BE headerBuffer 0 of None \<Rightarrow> None | Some mid \<Rightarrow>
      (case readUint32BE headerBuffer 4 of None \<Rightarrow> None | Some fmt \<Rightarrow>
      (case readUint32BE headerBuffer 8 of None \<Rightarrow> None | Some magic \<Rightarrow>
      (case readUint32BE headerBuffer 12 of None \<Rightarrow> None | Some len \<Rightarrow>
        if magic \<noteq> MAGIC_NUMBER cfg then None
        else if len > MAX_BODY_LENGTH then None
        else
          let p1 = p\<lparr>cur_header := Some \<lparr>messageId = mid, dataFormat = fmt,
                                         magicNumber = magic, dataLength = len\<rparr>,
                     neededLength := len, parsingState := BODY,
                     buffer := drop HEADER_LENGTH (buffer p)\<rparr>
          in if neededLength p1 = 0
             then (case emitCompleteMessage p1 [] of
                     None \<Rightarrow> None
                   | Some (p2, m) \<Rightarrow> Some (p2, [m]))
             else Some (p1, []))))))"

text \<open>\<open>_parseBody()\<close>: emits the message, then removes the body from the buffer.\<close>

definition parseBody :: "parser \<Rightarrow> (parser \<times> complete_message list) option" where
  "parseBody p =
     (let bodyLengthToParse = neededLength p;
          bodyBuffer = take bodyLengthToParse (buffer p)
      in case emitCompleteMessage p bodyBuffer of
           None \<Rightarrow> None
         | Some (p1, m) \<Rightarrow> Some (p1\<lparr>buffer := drop bodyLengthToParse (buffer p1)\<rparr>, [m]))"

definition resetParserState :: "parser \<Rightarrow> parser" where
  "resetParserState p = p\<lparr>buffer := [], cur_header := None, neededLength := HEADER_LENGTH,
                          parsingState := HEADER\<rparr>"

definition parse_step :: "header_config \<Rightarrow> parser \<Rightarrow> (parser \<times> complete_message list) option" where
  "parse_step cfg p = (case parsingState p of HEADER \<Rightarrow> parseHeader cfg p | BODY \<Rightarrow> parseBody p)"

text \<open>
  The \<open>while (this.buffer.length >= this.neededLength)\<close> loop of \<open>_transform\<close>: a
  thrown error resets the parser and leaves the loop.
\<close>

function transform_loop :: "header_config \<Rightarrow> parser \<Rightarrow> complete_message list
                              \<Rightarrow> parser \<times> complete_message list" where
  "transform_loop cfg p out =
     (if length (buffer p) \<ge> neededLength p
      then (case parse_step cfg p of
              None \<Rightarrow> (resetParserState p, out)
            | Some (p', ms) \<Rightarrow> transform_loop cfg p' (out @ ms))
      else (p, out))"
  by pat_completeness auto
termination
proof (relation "measure (\<lambda>(cfg, p, out).
          2 * length (buffer p) + (case parsingState p of HEADER \<Rightarrow> 0 | BODY \<Rightarrow> 1))")
  show "wf (measure (\<lambda>(cfg, p, out).
          2 * length (buffer p) + (case parsingState p of HEADER \<Rightarrow> 0 | BODY \<Rightarrow> 1)))"
    by simp
next
  fix cfg :: header_config and p :: parser and out :: "complete_message list"
    and x2 :: "parser \<times> complete_message list" and p' :: parser and ms :: "complete_message list"
  assume ge: "neededLength p \<le> length (buffer p)"
    and st: "parse_step cfg p = Some x2" and x2: "(p', ms) = x2"
  show "((cfg, p', out @ ms), (cfg, p, out)) \<in> measure (\<lambda>(cfg, p, out).
          2 * length (buffer p) + (case parsingState p of HEADER \<Rightarrow> 0 | BODY \<Rightarrow> 1))"
  proof (cases "parsingState p")
    case HEADER
    with st x2 have ph: "parseHeader cfg p = Some (p', ms)"
      by (simp add: parse_step_def)
    then have "16 \<le> length (buffer p) \<and> length (buffer p') = length (buffer p) - 16"
      by (auto simp: parseHeader_def readUint32BE_def HEADER_LENGTH_def Let_def
            emitCompleteMessage_def split: option.splits if_splits)
    with HEADER show ?thesis
      by (auto split: parsing_state.splits)
  next
    case BODY
    with st x2 have pb: "parseBody p = Some (p', ms)"
      by (simp add: parse_step_def)
    then have "parsingState p' = HEADER \<and> length (buffer p') \<le> length (buffer p)"
      by (auto simp: parseBody_def emitCompleteMessage_def Let_def split: option.splits)
    with BODY show ?thesis by simp
  qed
qed

declare transform_loop.simps [simp del]

text \<open>\<open>_transform(chunk)\<close>: append the chunk, then run the loop.\<close>

definition transform :: "header_config \<Rightarrow> parser \<Rightarrow> byte list \<Rightarrow> parser \<times> complete_message list" where
  "transform cfg p chunk = transform_loop cfg (p\<lparr>buffer := buffer p @ chunk\<rparr>) []"

section \<open>Central service: configuration\<close>

text \<open>
  The values of \<open>config/index.js\<close> of the central service.  The identifiers read from
  the environment are fields of \<open>cs_config\<close>; the literals of the file are constants.
\<close>

record cs_config =
  CENTRAL_SYSTEM_SENDER_ID :: string
  CENTRAL_SERVICE_SENDER_ID :: string
  DEST_ID :: string
  PASSWORD :: string

definition ETS_CNF_DIS_INFO :: nat where "ETS_CNF_DIS_INFO = 0xFFEE4020"
definition ETS_REQ_DIS_REPORT :: nat where "ETS_REQ_DIS_REPORT = 0xFFEE5020"
definition ETS_NFY_DEVICE_INFO :: nat where "ETS_NFY_DEVICE_INFO = 0xFFEE7010"
definition ETS_NFY_DEVICE_STS :: nat where "ETS_NFY_DEVICE_STS = 0xFFEE8010"

text \<open>\<open>TIMERS.TRANSMISSION_TIMEOUT\<close>, in milliseconds.\<close>

definition TRANSMISSION_TIMEOUT :: nat where "TRANSMISSION_TIMEOUT = 10000"

text \<open>\<open>reportTransmitWorker.MAX_RETRIES\<close> and \<open>rabbitmq.MAX_RETRIES\<close>.\<close>

definition reportTransmit_MAX_RETRIES :: nat where "reportTransmit_MAX_RETRIES = 3"
definition rabbitmq_MAX_RETRIES :: nat where "rabbitmq_MAX_RETRIES = 3"


text \<open>Decimal text of a number, as a template literal renders it.\<close>

fun show_nat :: "nat \<Rightarrow> string" where
  "show_nat n = (if n < 10 then [''0123456789'' ! n]
                 else show_nat (n div 10) @ [''0123456789'' ! (n mod 10)])"

declare show_nat.simps [simp del]

text \<open>A possibly undefined string inside a template literal.\<close>

definition js_string :: "string option \<Rightarrow> string" where
  "js_string x = (case x of None \<Rightarrow> ''undefined'' | Some s \<Rightarrow> s)"

section \<open>Central service: messages and tables\<close>

text \<open>
  The envelope \<open>&lt;data&gt;\<close> of an inbound message as \<open>xml2js\<close> returns it
  (\<open>receivedData\<close>).  An absent element is \<open>None\<close>.  Of the CAP alert the record keeps
  the fields the program reads; \<open>eventCode_value\<close> is \<open>alert.info?.eventCode?.value\<close>.
  The elements are text: \<open>transMsgSeq\<close> is the text of the element, which the program
  hands to PostgreSQL as it is.
\<close>

record cap_alert =
  alert_identifier :: "string option"
  alert_sender :: "string option"
  alert_sent :: "string option"
  eventCode_value :: "string option"

record cap_info =
  alert :: "cap_alert option"

record received_data =
  transMsgId :: "string option"
  transMsgSeq :: "string option"
  capInfo :: "cap_info option"

text \<open>The request body of an external system that a report carries (\<open>rawMessage\<close>).\<close>

record raw_report =
  rr_identifier :: "string option"
  rr_json :: string

datatype report_type = DEVICE_INFO | DEVICE_STATUS | DISASTER_RESULT





record tcp_receive_log =
  trl_id :: nat
  inbound_id :: string
  inbound_seq :: int
  trl_raw_message :: received_data
  trl_status :: status
  trl_error_message :: "string option"

record disaster_publish_log =
  dpl_id :: nat
  dpl_tcp_receive_log_id :: nat
  dpl_routing_key :: string
  dpl_identifier :: string
  dpl_event_code :: string
  dpl_raw_message :: received_data
  dpl_status :: status
  dpl_retry_count :: nat

record mq_receive_log =
  mrl_id :: nat
  mrl_raw_message :: string
  mrl_status :: status
  mrl_error_message :: "string option"

record report_transmit_log =
  rtl_id :: nat
  rtl_mq_receive_log_id :: nat
  rtl_type :: report_type
  outbound_id :: string
  external_system_name :: string
  rtl_raw_message :: raw_report
  rtl_status :: status
  rtl_retry_count :: nat
  error_detail :: "string option"
  report_sequence :: nat
  rtl_updated_at :: "nat option"

text \<open>
  The database of the central service: the four tables in insertion order and the
  \<open>bigserial\<close> sequence of each.  A sequence value is consumed when the \<open>INSERT\<close>
  runs and is not given back by a rollback.
\<close>

record cs_db =
  tcp_receive_logs :: "tcp_receive_log list"
  disaster_publish_logs :: "disaster_publish_log list"
  mq_receive_logs :: "mq_receive_log list"
  report_transmit_logs :: "report_transmit_log list"
  trl_seq :: nat
  dpl_seq :: nat
  mrl_seq :: nat
  rtl_seq :: nat

text \<open>
  The writes the program issues through a pooled client.  Outside a transaction a write
  takes effect at once; between \<open>BEGIN\<close> and \<open>COMMIT\<close> it is held by the client
  and takes effect at \<open>COMMIT\<close>; \<open>ROLLBACK\<close> and the release of the client drop what
  is held.
\<close>

datatype cs_write =
    TcpInsert tcp_receive_log
  | TcpUpdateStatus nat status "string option"
  | DplInsert disaster_publish_log
  | MqUpdateStatus nat status "string option"

fun apply_write :: "cs_write \<Rightarrow> cs_db \<Rightarrow> cs_db" where
  "apply_write (TcpInsert r) db = db\<lparr>tcp_receive_logs := tcp_receive_logs db @ [r]\<rparr>"
| "apply_write (TcpUpdateStatus i st err) db =
     db\<lparr>tcp_receive_logs :=
          map (\<lambda>r. if trl_id r = i then r\<lparr>trl_status := st, trl_error_message := err\<rparr> else r)
              (tcp_receive_logs db)\<rparr>"
| "apply_write (DplInsert r) db =
     (if dpl_identifier r \<in> set (map dpl_identifier (disaster_publish_logs db)) then db
      else db\<lparr>disaster_publish_logs := disaster_publish_logs db @ [r]\<rparr>)"
| "apply_write (MqUpdateStatus i st err) db =
     db\<lparr>mq_receive_logs :=
          map (\<lambda>r. if mrl_id r = i then r\<lparr>mrl_status := st, mrl_error_message := err\<rparr> else r)
              (mq_receive_logs db)\<rparr>"

record client =
  in_tx :: bool
  pending :: "cs_write list"

definition new_client :: client where
  "new_client = \<lparr>in_tx = False, pending = []\<rparr>"

definition client_query :: "client \<Rightarrow> cs_write \<Rightarrow> cs_db \<Rightarrow> client \<times> cs_db" where
  "client_query c w db =
     (if in_tx c then (c\<lparr>pending := pending c @ [w]\<rparr>, db) else (c, apply_write w db))"

text \<open>What a query through the client reads: the database with the held writes.\<close>

definition client_view :: "client \<Rightarrow> cs_db \<Rightarrow> cs_db" where
  "client_view c db = foldl (\<lambda>d w. apply_write w d) db (pending c)"

definition client_begin :: "client \<Rightarrow> client" where
  "client_begin c = c\<lparr>in_tx := True\<rparr>"

definition client_commit :: "client \<Rightarrow> cs_db \<Rightarrow> client \<times> cs_db" where
  "client_commit c db = (c\<lparr>in_tx := False, pending := []\<rparr>, client_view c db)"


section \<open>capService.js and responseUtils.js: the reply to a disaster notification\<close>

record ack_cap =
  ack_identifier :: string
  ack_sender :: string
  ack_sent :: string
  ack_status :: string
  ack_msgType :: string
  ack_scope :: string
  ack_address :: string
  ack_code :: string
  ack_note :: string
  ack_references :: string

definition code_gov :: string where
  "code_gov = utf8 [235, 140, 128, 237, 149, 156, 235, 175, 188, 234, 181, 173, 236, 160, 149,
     235, 182, 128, 49, 46, 50]"

definition msg_cap_ack_invalid :: string where
  "msg_cap_ack_invalid = utf8 [236, 157, 145, 235, 139, 181, 32, 67, 65, 80, 40, 65, 67, 75,
     41, 32, 236, 131, 157, 236, 132, 177, 236, 157, 132, 32, 236, 156, 132, 237, 149, 156, 32,
     236, 155, 144, 235, 179, 184, 32, 67, 65, 80, 32, 234, 176, 157, 236, 178, 180, 234, 176,
     128, 32, 236, 156, 160, 237, 154, 168, 237, 149, 152, 236, 167, 128, 32, 236, 149, 138,
     236, 157, 140, 46]"

text \<open>
  \<open>createAckCap(originalCap, noteCode, noteMessage)\<close>; \<open>now\<close> is the formatted current
  time.  It throws when the original CAP or its alert is missing.
\<close>

definition createAckCap :: "cs_config \<Rightarrow> string \<Rightarrow> cap_info option \<Rightarrow> string \<Rightarrow> string
                              \<Rightarrow> js_error + ack_cap" where
  "createAckCap cfg now originalCap nCode nMessage =
     (case originalCap of
        None \<Rightarrow> Inl (Error msg_cap_ack_invalid)
      | Some ci \<Rightarrow>
         (case alert ci of
            None \<Rightarrow> Inl (Error msg_cap_ack_invalid)
          | Some originalAlert \<Rightarrow>
              Inr \<lparr>ack_identifier = js_string (alert_identifier originalAlert) @ ''_ACK'',
                   ack_sender = CENTRAL_SERVICE_SENDER_ID cfg,
                   ack_sent = now,
                   ack_status = ''System'',
                   ack_msgType = ''Ack'',
                   ack_scope = ''Private'',
                   ack_address = CENTRAL_SYSTEM_SENDER_ID cfg,
                   ack_code = code_gov,
                   ack_note = nCode @ ''|'' @ nMessage,
                   ack_references = js_string (alert_sender originalAlert) @ '','' @
                      js_string (alert_identifier originalAlert) @ '','' @
                      js_string (alert_sent originalAlert)\<rparr>))"

text \<open>The XML object of an \<open>ETS_CNF_DIS_INFO\<close> reply.\<close>

record cnf_dis_info =
  cnf_resultCode :: string
  cnf_result :: string
  cnf_transMsgSeq :: string
  cnf_transMsgId :: string
  cnf_capInfo :: "ack_cap option"

text \<open>The XML object of an outbound report: envelope fields and the CAP fields kept.\<close>

record report_xml =
  rep_transMsgId :: string
  rep_transMsgSeq :: nat
  rep_cap_identifier :: string
  rep_cap_msgType :: string
  rep_cap_eventCode :: string
  rep_cap_valueName :: string
  rep_cap_references :: "string option"
  rep_cap_value :: string

datatype xml_object = CnfDisInfo cnf_dis_info | Report report_xml

text \<open>
  A message handed to \<open>sessionManager.send\<close>: the message id of the header and the
  XML object of the body.  The bytes are \<open>buildMessageBuffer\<close> of the message id and
  the text \<open>xmlbuilder2\<close> makes of the object.
\<close>

record frame =
  frame_messageId :: nat
  frame_xml :: xml_object

text \<open>
  \<open>createCnfDisInfoBuffer(receivedData, capInfoObject, error)\<close>: \<open>None\<close> is the
  \<open>null\<close> returned when the envelope fields are missing or \<open>createAckCap\<close> throws.
\<close>

definition createCnfDisInfoBuffer :: "cs_config \<Rightarrow> string \<Rightarrow> received_data option \<Rightarrow> cap_info option
                                        \<Rightarrow> js_error option \<Rightarrow> frame option" where
  "createCnfDisInfoBuffer cfg now receivedData capInfoObject error =
     (case receivedData of
        None \<Rightarrow> None
      | Some rd \<Rightarrow>
         (case transMsgSeq rd of
            None \<Rightarrow> None
          | Some seq \<Rightarrow>
             if falsy (transMsgId rd) then None
             else
               let rc = mapErrorToResponseCode error;
                   resp = \<lparr>cnf_resultCode = resultCode rc, cnf_result = resultText rc,
                           cnf_transMsgSeq = seq, cnf_transMsgId = js_string (transMsgId rd),
                           cnf_capInfo = None\<rparr>
               in (case capInfoObject of
                     None \<Rightarrow> Some \<lparr>frame_messageId = ETS_CNF_DIS_INFO,
                                   frame_xml = CnfDisInfo resp\<rparr>
                   | Some ci \<Rightarrow>
                      (case createAckCap cfg now (Some ci) (noteCode rc) (noteMessage rc) of
                         Inl e \<Rightarrow> None
                       | Inr ackCapObject \<Rightarrow>
                           Some \<lparr>frame_messageId = ETS_CNF_DIS_INFO,
                                 frame_xml = CnfDisInfo (resp\<lparr>cnf_capInfo := Some ackCapObject\<rparr>)\<rparr>))))"

section \<open>Central service: session manager (sessionManager.js)\<close>

text \<open>
  The state of the central service outside the database: whether the TCP socket is
  connected and writable, the frames written to it so far, and the ids of the report
  rows whose ACK timer is armed (\<open>activeTimeouts\<close>).  \<open>channel\<close> is the list
  of the calls made on the broker channel so far: \<open>ack\<close> and \<open>nack\<close> of a delivery
  tag, and \<open>publish\<close> of a content to an exchange with a routing key and the
  \<open>x-retry-count\<close> header, if any.
\<close>

datatype broker_action =
    Ack nat
  | Nack nat
  | Publish string string string "nat option"

record cs_state =
  db :: cs_db
  connected :: bool
  sent_frames :: "frame list"
  activeTimeouts :: "nat list"
  channel :: "broker_action list"

text \<open>\<open>sessionManager.send\<close>: writes only when connected.\<close>

definition send :: "frame \<Rightarrow> cs_state \<Rightarrow> cs_state" where
  "send f s = (if connected s then s\<lparr>sent_frames := sent_frames s @ [f]\<rparr> else s)"

section \<open>disasterHandler.js: the inbound disaster pipeline\<close>












text \<open>
  What a reply frame carries: message id, result code, result text, and the note code
  of its CAP, if it has one.
\<close>

definition note_code_of :: "string \<Rightarrow> string" where
  "note_code_of note = takeWhile (\<lambda>c. c \<noteq> CHR ''|'') note"

definition reply_codes :: "frame \<Rightarrow> nat \<times> string \<times> string \<times> string option" where
  "reply_codes f =
     (case frame_xml f of
        CnfDisInfo r \<Rightarrow> (frame_messageId f, cnf_resultCode r, cnf_result r,
                         map_option (\<lambda>a. note_code_of (ack_note a)) (cnf_capInfo r))
      | Report x \<Rightarrow> (frame_messageId f, [], [], None))"

section \<open>Central service: broker consumer (messageBrokerService.js)\<close>

text \<open>
  A delivery from the broker: its content, the \<open>x-retry-count\<close> header, the routing
  key and the delivery tag.
\<close>

record amqp_message =
  content :: string
  x_retry_count :: "nat option"
  msg_routingKey :: string
  deliveryTag :: nat

text \<open>
  What \<open>const { type, externalSystemName, rawMessage } = JSON.parse(messageString)\<close>
  binds.  A property the content does not carry is \<open>None\<close> (\<open>undefined\<close>);
  \<open>rawMessage\<close>, when present, is an object.
\<close>

record report_payload =
  rp_type :: "string option"
  rp_externalSystemName :: "string option"
  rp_rawMessage :: "raw_report option"

datatype mq_call =
  MqCreate | MqGetClient | MqBegin | MqLookup | MqCreateOutbox | MqUpdateSuccess | MqCommit
  | MqRollback | MqPublishRetry | MqUpdateFailed

definition REPORT_RETRY_EXCHANGE :: string where "REPORT_RETRY_EXCHANGE = ''report_retry''"
definition REPORT_ROUTING_KEY :: string where "REPORT_ROUTING_KEY = ''report.external''"
definition DISASTER_EXCHANGE :: string where "DISASTER_EXCHANGE = ''disaster.topic''"

text \<open>
  The constraints of \<open>report_transmit_logs\<close> that the \<open>INSERT\<close> of a report can
  violate: \<open>type\<close>, \<open>external_system_name\<close> and \<open>raw_message\<close> are \<open>NOT NULL\<close>,
  and \<open>type\<close> has a \<open>CHECK\<close> constraint.  The messages are those of PostgreSQL.
\<close>

definition msg_not_null :: "string \<Rightarrow> string \<Rightarrow> string" where
  "msg_not_null relation column =
     ''null value in column \"'' @ column @ ''\" of relation \"'' @ relation @
     ''\" violates not-null constraint''"

definition msg_type_check :: string where
  "msg_type_check =
     ''new row for relation \"report_transmit_logs\" violates check constraint '' @
     ''\"report_transmit_logs_type_check\"''"

definition msg_read_identifier :: string where
  "msg_read_identifier = ''Cannot read properties of undefined (reading 'identifier')''"

definition report_type_of :: "string \<Rightarrow> report_type option" where
  "report_type_of t =
     (if t = ''DISASTER_RESULT'' then Some DISASTER_RESULT
      else if t = ''DEVICE_INFO'' then Some DEVICE_INFO
      else if t = ''DEVICE_STATUS'' then Some DEVICE_STATUS
      else None)"

definition msg_no_dpl :: "string \<Rightarrow> string" where
  "msg_no_dpl ident = ''device_publish_logs '' @
     utf8 [237, 133, 140, 236, 157, 180, 235, 184, 148, 236, 151, 144, 32, 236, 161, 180, 236,
           158, 172, 237, 149, 152, 236, 167, 128, 32, 236, 149, 138, 235, 138, 148, 32]
     @ ''identifier = '' @ ident @ ''.''"

text \<open>\<open>mqReceiveLogRepository.create\<close> through the pool: one more row, \<open>PENDING\<close>.\<close>

definition mq_create :: "string \<Rightarrow> cs_db \<Rightarrow> nat \<times> cs_db" where
  "mq_create rawMessage d =
     (let i = Suc (mrl_seq d)
      in (i, d\<lparr>mrl_seq := i,
               mq_receive_logs := mq_receive_logs d @
                 [\<lparr>mrl_id = i, mrl_raw_message = rawMessage, mrl_status = PENDING,
                   mrl_error_message = None\<rparr>]\<rparr>))"

text \<open>
  \<open>reportTransmitLogRepository.create\<close>.  It has no client parameter: the
  \<open>INSERT\<close> goes through the pool and takes effect at once.  The columns not named
  take their defaults; the value of the sequence is taken also when the row is then
  rejected by a constraint.  \<open>Inl\<close> is the error of a rejected row.
\<close>

definition rtl_create :: "nat \<Rightarrow> string option \<Rightarrow> string \<Rightarrow> string option \<Rightarrow> raw_report option
                            \<Rightarrow> cs_db \<Rightarrow> js_error option \<times> cs_db" where
  "rtl_create mqReceiveLogId ty outboundId externalSystemName rawMessage d =
     (let i = Suc (rtl_seq d); d1 = d\<lparr>rtl_seq := i\<rparr>
      in (case (ty, externalSystemName, rawMessage) of
            (Some t, Some n, Some m) \<Rightarrow>
              (case report_type_of t of
                 None \<Rightarrow> (Some \<lparr>err_name = ''error'', err_message = msg_type_check\<rparr>, d1)
               | Some rt \<Rightarrow>
                  (None,
                   d1\<lparr>report_transmit_logs := report_transmit_logs d @
                        [\<lparr>rtl_id = i, rtl_mq_receive_log_id = mqReceiveLogId, rtl_type = rt,
                          outbound_id = outboundId, external_system_name = n,
                          rtl_raw_message = m, rtl_status = PENDING, rtl_retry_count = 0,
                          error_detail = None, report_sequence = 1, rtl_updated_at = None\<rparr>]\<rparr>))
          | (None, _, _) \<Rightarrow>
              (Some \<lparr>err_name = ''error'', err_message = msg_not_null ''report_transmit_logs'' ''type''\<rparr>, d1)
          | (Some t, None, _) \<Rightarrow>
              (Some \<lparr>err_name = ''error'', err_message = msg_not_null ''report_transmit_logs'' ''external_system_name''\<rparr>,
               d1)
          | (Some t, Some n, None) \<Rightarrow>
              (Some \<lparr>err_name = ''error'', err_message = msg_not_null ''report_transmit_logs'' ''raw_message''\<rparr>, d1)))"

text \<open>\<open>disasterPublishLogRepository.existsByIdentifier\<close> (through the pool).\<close>

definition dpl_existsByIdentifier :: "string option \<Rightarrow> cs_db \<Rightarrow> bool" where
  "dpl_existsByIdentifier ident d =
     (case ident of
        None \<Rightarrow> False
      | Some i \<Rightarrow> i \<in> set (map dpl_identifier (disaster_publish_logs d)))"

text \<open>
  The inner \<open>try\<close> block of \<open>_consumeReportMessage\<close>, from \<open>BEGIN\<close> to
  \<open>COMMIT\<close>.  \<open>JSON_parse\<close> is \<open>JSON.parse\<close> followed by the destructuring,
  \<open>None\<close> when either throws; \<open>now\<close> is \<open>Date.now()\<close>.  \<open>Inl\<close> is the error
  thrown, with the client and the database at that point.
\<close>

definition report_tx :: "cs_config \<Rightarrow> nat \<Rightarrow> (mq_call \<Rightarrow> js_error option)
                           \<Rightarrow> (string \<Rightarrow> report_payload option) \<Rightarrow> string \<Rightarrow> nat \<Rightarrow> cs_db
                           \<Rightarrow> (js_error \<times> client \<times> cs_db) + cs_db" where
  "report_tx cfg now flt JSON_parse messageString mqReceiveLogId d0 =
     (case flt MqBegin of
        Some e \<Rightarrow> Inl (e, new_client, d0)
      | None \<Rightarrow>
         (let c1 = client_begin new_client
          in (case JSON_parse messageString of
                None \<Rightarrow> Inl (\<lparr>err_name = ''SyntaxError'', err_message = ''Unexpected token''\<rparr>, c1, d0)
              | Some messageContent \<Rightarrow>
                 (let rawMessage = rp_rawMessage messageContent;
                      isResult = (rp_type messageContent = Some ''DISASTER_RESULT'');
                      identifier = (case rawMessage of None \<Rightarrow> None | Some m \<Rightarrow> rr_identifier m);
                      outboundId = (if isResult then js_string identifier @ ''_RPT_1''
                                    else ''KR.'' @ DEST_ID cfg @ ''_'' @ show_nat now)
                  in (if isResult \<and> rawMessage = None
                      then Inl (\<lparr>err_name = ''TypeError'', err_message = msg_read_identifier\<rparr>,
                                c1, d0)
                      else if isResult \<and> flt MqLookup \<noteq> None
                      then Inl (case flt MqLookup of Some e \<Rightarrow> e | None \<Rightarrow> Error [], c1, d0)
                      else if isResult \<and> \<not> dpl_existsByIdentifier identifier d0
                      then Inl (Error (msg_no_dpl (js_string identifier)), c1, d0)
                      else
                       (case flt MqCreateOutbox of
                          Some e \<Rightarrow> Inl (e, c1, d0)
                        | None \<Rightarrow>
                           (let q1 = rtl_create mqReceiveLogId (rp_type messageContent) outboundId
                                       (rp_externalSystemName messageContent) rawMessage d0;
                                d1 = snd q1
                            in (case fst q1 of
                                  Some e \<Rightarrow> Inl (e, c1, d1)
                                | None \<Rightarrow>
                                   (case flt MqUpdateSuccess of
                                      Some e \<Rightarrow> Inl (e, c1, d1)
                                    | None \<Rightarrow>
                                       (let q2 = client_query c1
                                              (MqUpdateStatus mqReceiveLogId SUCCESS None) d1
                                        in (case flt MqCommit of
                                              Some e \<Rightarrow> Inl (e, fst q2, snd q2)
                                            | None \<Rightarrow>
                                               Inr (snd (client_commit (fst q2) (snd q2))))))))))))))"

text \<open>
  The outer \<open>catch\<close> block: republish to the retry exchange below \<open>MAX_RETRIES\<close>,
  otherwise \<open>nack\<close> and mark the inbox row \<open>FAILED\<close>.  When the republish throws, the
  handler of that error calls \<open>logger.err\<close>, which the logger does not have, so the
  \<open>nack\<close> after it is not reached.
\<close>

definition final_failed :: "string \<Rightarrow> string" where
  "final_failed m = ''[Final Failed] '' @ m"

definition report_retry :: "(mq_call \<Rightarrow> js_error option) \<Rightarrow> amqp_message \<Rightarrow> js_error \<Rightarrow> nat option
                              \<Rightarrow> cs_state \<Rightarrow> cs_state" where
  "report_retry flt msg err mqReceiveLogId s =
     (let retryCount = (case x_retry_count msg of None \<Rightarrow> 0 | Some n \<Rightarrow> n)
      in if retryCount < rabbitmq_MAX_RETRIES
         then (case flt MqPublishRetry of
                 Some publishErr \<Rightarrow> s
               | None \<Rightarrow>
                   s\<lparr>channel := channel s @
                        [Publish REPORT_RETRY_EXCHANGE REPORT_ROUTING_KEY (content msg)
                           (Some (retryCount + 1)),
                         Ack (deliveryTag msg)]\<rparr>)
         else
           (let s1 = s\<lparr>channel := channel s @ [Nack (deliveryTag msg)]\<rparr>
            in (case mqReceiveLogId of
                  None \<Rightarrow> s1
                | Some i \<Rightarrow>
                   (case flt MqUpdateFailed of
                      Some e \<Rightarrow> s1
                    | None \<Rightarrow>
                       s1\<lparr>db := apply_write
                              (MqUpdateStatus i FAILED (Some (final_failed (err_message err))))
                              (db s1)\<rparr>))))"

text \<open>
  \<open>_consumeReportMessage(msg)\<close> for a delivery (\<open>msg\<close> not \<open>null\<close>).  The inner
  \<open>catch\<close> rolls back (an error of \<open>ROLLBACK\<close> itself is only logged) and rethrows;
  the client is released, which drops what it holds.
\<close>

definition consumeReportMessage :: "cs_config \<Rightarrow> nat \<Rightarrow> (mq_call \<Rightarrow> js_error option)
                                      \<Rightarrow> (string \<Rightarrow> report_payload option) \<Rightarrow> amqp_message
                                      \<Rightarrow> cs_state \<Rightarrow> cs_state" where
  "consumeReportMessage cfg now flt JSON_parse msg s =
     (case flt MqCreate of
        Some e \<Rightarrow> report_retry flt msg e None s
      | None \<Rightarrow>
         (let q = mq_create (content msg) (db s);
              s1 = s\<lparr>db := snd q\<rparr>
          in (case flt MqGetClient of
                Some e \<Rightarrow> report_retry flt msg e (Some (fst q)) s1
              | None \<Rightarrow>
                 (case report_tx cfg now flt JSON_parse (content msg) (fst q) (snd q) of
                    Inr d \<Rightarrow> s1\<lparr>db := d, channel := channel s1 @ [Ack (deliveryTag msg)]\<rparr>
                  | Inl (dbErr, c, d) \<Rightarrow>
                      report_retry flt msg dbErr (Some (fst q)) (s1\<lparr>db := d\<rparr>)))))"

text \<open>The consumer run on a list of deliveries, one after the other.\<close>

fun consumeReportMessages :: "cs_config \<Rightarrow> nat \<Rightarrow> (mq_call \<Rightarrow> js_error option)
                                \<Rightarrow> (string \<Rightarrow> report_payload option) \<Rightarrow> amqp_message list
                                \<Rightarrow> cs_state \<Rightarrow> cs_state" where
  "consumeReportMessages cfg now flt JSON_parse [] s = s"
| "consumeReportMessages cfg now flt JSON_parse (m # ms) s =
     consumeReportMessages cfg now flt JSON_parse ms (consumeReportMessage cfg now flt JSON_parse m s)"

section \<open>Central service: report outbox (reportTransmitLogRepository.js)\<close>

text \<open>
  The \<open>UPDATE\<close> statements run through the pool; the trigger of the table sets
  \<open>updated_at\<close> to the current time \<open>now\<close> on every updated row.
\<close>

definition rtl_updateStatusById :: "nat \<Rightarrow> nat \<Rightarrow> status \<Rightarrow> string option \<Rightarrow> cs_db \<Rightarrow> cs_db" where
  "rtl_updateStatusById now logId st errorDetail d =
     d\<lparr>report_transmit_logs :=
         map (\<lambda>r. if rtl_id r = logId
                   then r\<lparr>rtl_status := st, error_detail := errorDetail,
                          rtl_updated_at := Some now\<rparr>
                   else r)
             (report_transmit_logs d)\<rparr>"

definition incrementRetryCountAndReportSequence :: "nat \<Rightarrow> nat \<Rightarrow> cs_db \<Rightarrow> cs_db" where
  "incrementRetryCountAndReportSequence now logId d =
     d\<lparr>report_transmit_logs :=
         map (\<lambda>r. if rtl_id r = logId
                   then r\<lparr>rtl_retry_count := rtl_retry_count r + 1,
                          report_sequence := report_sequence r + 1,
                          rtl_updated_at := Some now\<rparr>
                   else r)
             (report_transmit_logs d)\<rparr>"

definition rtl_findById :: "nat \<Rightarrow> cs_db \<Rightarrow> report_transmit_log option" where
  "rtl_findById logId d = find (\<lambda>r. rtl_id r = logId) (report_transmit_logs d)"

definition findByOutboundIdAndReportSequence :: "string \<Rightarrow> nat \<Rightarrow> cs_db
                                                   \<Rightarrow> report_transmit_log option" where
  "findByOutboundIdAndReportSequence outboundId reportSequence d =
     find (\<lambda>r. outbound_id r = outboundId \<and> report_sequence r = reportSequence)
          (report_transmit_logs d)"

text \<open>
  \<open>findUnprocessedMessages\<close>: the rows that are \<open>PENDING\<close>, or \<open>SENT\<close> with
  \<open>updated_at\<close> more than \<open>TRANSMISSION_TIMEOUT\<close> before \<open>now\<close>.
\<close>

definition rtl_unprocessed :: "nat \<Rightarrow> report_transmit_log \<Rightarrow> bool" where
  "rtl_unprocessed now r =
     (rtl_status r = PENDING \<or>
      (rtl_status r = SENT \<and>
       (case rtl_updated_at r of None \<Rightarrow> False | Some t \<Rightarrow> t + TRANSMISSION_TIMEOUT < now)))"

definition rtl_findUnprocessedMessages :: "nat \<Rightarrow> cs_db \<Rightarrow> report_transmit_log list" where
  "rtl_findUnprocessedMessages now d = filter (rtl_unprocessed now) (report_transmit_logs d)"

definition dpl_findByIdentifier :: "string \<Rightarrow> cs_db \<Rightarrow> disaster_publish_log option" where
  "dpl_findByIdentifier ident d = find (\<lambda>r. dpl_identifier r = ident) (disaster_publish_logs d)"

section \<open>Central service: reliableTransmitService.js and reportTransmitWorker.js\<close>

datatype rt_call =
  RtFindUnprocessed | RtFindById | RtUpdatePending | RtFindByIdentifier | RtUpdateSent
  | RtUpdateFailed | RtFindByOutbound | RtUpdateSuccess

fun MESSAGE_IDS :: "report_type \<Rightarrow> nat" where
  "MESSAGE_IDS DEVICE_INFO = ETS_NFY_DEVICE_INFO"
| "MESSAGE_IDS DEVICE_STATUS = ETS_NFY_DEVICE_STS"
| "MESSAGE_IDS DISASTER_RESULT = ETS_REQ_DIS_REPORT"

definition msg_max_retries :: string where
  "msg_max_retries =
     utf8 [236, 181, 156, 235, 140, 128, 32, 236, 158, 172, 236, 139, 156, 235, 143, 132, 32,
           237, 154, 159, 236, 136, 152]
     @ ''('' @ show_nat reportTransmit_MAX_RETRIES @ '') '' @ utf8 [236, 180, 136, 234, 179, 188]"

definition msg_no_original :: "string \<Rightarrow> string \<Rightarrow> string" where
  "msg_no_original originalIdentifier ident =
     utf8 [236, 155, 144, 235, 179, 184, 32, 236, 158, 172, 235, 130, 156, 32, 236, 160, 149,
           235, 179, 180, 32, 236, 139, 157, 235, 179, 132, 236, 158, 144]
     @ ''('' @ originalIdentifier @ '') ''
     @ utf8 [236, 161, 176, 237, 154, 140, 32, 236, 139, 164, 237, 140, 168, 46]
     @ '' Outbound ID: '' @ ident"

definition msg_original_invalid :: "string \<Rightarrow> string" where
  "msg_original_invalid originalIdentifier =
     utf8 [236, 155, 144, 235, 179, 184, 32, 236, 158, 172, 235, 130, 156, 32, 235, 161, 156,
           234, 183, 184]
     @ ''('' @ originalIdentifier @ '')''
     @ utf8 [236, 157, 152] @ '' CAP ''
     @ utf8 [236, 160, 149, 235, 179, 180, 234, 176, 128, 32, 236, 156, 160, 237, 154, 168,
             237, 149, 152, 236, 167, 128, 32, 236, 149, 138, 236, 157, 140]"

definition msg_ack_error :: string where
  "msg_ack_error =
     ''ACK/NACK '' @ utf8 [236, 178, 152, 235, 166, 172, 32, 236, 152, 164, 235, 165, 152] @ '': ''"

definition ack_timeout_reason :: string where
  "ack_timeout_reason = ''ACK Timeout (10'' @ utf8 [236, 180, 136] @ '')''"

text \<open>
  \<open>processFailure(logId, currentRetryCount, failureReason)\<close>: clears the timer of the
  row and, unless the row is gone or terminal, sets it back to \<open>PENDING\<close>.  The
  retry count it is given is only used in a log line.
\<close>

definition processFailure :: "nat \<Rightarrow> (rt_call \<Rightarrow> js_error option) \<Rightarrow> nat \<Rightarrow> nat \<Rightarrow> string
                                \<Rightarrow> cs_state \<Rightarrow> cs_state" where
  "processFailure now flt logId currentRetryCount failureReason s =
     (let s1 = s\<lparr>activeTimeouts := removeAll logId (activeTimeouts s)\<rparr>
      in (case flt RtFindById of
            Some dbErr \<Rightarrow> s1
          | None \<Rightarrow>
             (case rtl_findById logId (db s1) of
                None \<Rightarrow> s1
              | Some currentLog \<Rightarrow>
                 (if rtl_status currentLog = SUCCESS \<or> rtl_status currentLog = FAILED then s1
                  else (case flt RtUpdatePending of
                          Some updateErr \<Rightarrow> s1
                        | None \<Rightarrow> s1\<lparr>db := rtl_updateStatusById now logId PENDING
                                              (Some failureReason) (db s1)\<rparr>)))))"

text \<open>
  The CAP object of a report (\<open>buildDeviceInfoCap\<close>, \<open>buildDeviceStatusCap\<close>,
  \<open>buildDisasterResultCap\<close>) inside the envelope, as the \<open>switch\<close> of
  \<open>processMessage\<close> builds it; \<open>Inl\<close> is a thrown error.
\<close>

definition report_cap :: "(rt_call \<Rightarrow> js_error option) \<Rightarrow> report_transmit_log \<Rightarrow> cs_db
                            \<Rightarrow> js_error + report_xml" where
  "report_cap flt log d =
     (let ident = outbound_id log;
          base = \<lparr>rep_transMsgId = ident, rep_transMsgSeq = report_sequence log,
                  rep_cap_identifier = ident, rep_cap_msgType = ''Alert'',
                  rep_cap_eventCode = ''DIS'', rep_cap_valueName = ''DEVICE_DATA'',
                  rep_cap_references = None, rep_cap_value = rr_json (rtl_raw_message log)\<rparr>
      in (case rtl_type log of
            DEVICE_INFO \<Rightarrow> Inr base
          | DEVICE_STATUS \<Rightarrow> Inr (base\<lparr>rep_cap_valueName := ''DEVICE_STATUS''\<rparr>)
          | DISASTER_RESULT \<Rightarrow>
             (let originalIdentifier = take (length ident - 6) ident
              in (case flt RtFindByIdentifier of
                    Some e \<Rightarrow> Inl e
                  | None \<Rightarrow>
                     (case dpl_findByIdentifier originalIdentifier d of
                        None \<Rightarrow> Inl (Error (msg_no_original originalIdentifier ident))
                      | Some disasterPublishLog \<Rightarrow>
                         (case capInfo (dpl_raw_message disasterPublishLog) of
                            None \<Rightarrow> Inl (Error (msg_original_invalid originalIdentifier))
                          | Some originalCapInfo \<Rightarrow>
                             (case alert originalCapInfo of
                                None \<Rightarrow> Inl (Error (msg_original_invalid originalIdentifier))
                              | Some a \<Rightarrow>
                                 (if falsy (alert_sent a) \<or> falsy (alert_sender a)
                                  then Inl (Error (msg_original_invalid originalIdentifier))
                                  else Inr (base\<lparr>rep_cap_msgType := ''Ack'',
                                             rep_cap_eventCode := ''DIM'',
                                             rep_cap_valueName := ''LASReport'',
                                             rep_cap_references :=
                                               Some (js_string (alert_sender a) @ '','' @
                                                     js_string (rr_identifier (rtl_raw_message log))
                                                     @ '','' @ js_string (alert_sent a))\<rparr>)))))))))"

text \<open>
  The \<open>catch\<close> block of \<open>processMessage\<close>: clear the timer, mark the row
  \<open>FAILED\<close> with the message of the error.
\<close>

definition processMessage_catch :: "nat \<Rightarrow> (rt_call \<Rightarrow> js_error option) \<Rightarrow> nat \<Rightarrow> js_error
                                      \<Rightarrow> cs_state \<Rightarrow> cs_state" where
  "processMessage_catch now flt logId err s =
     (let s1 = s\<lparr>activeTimeouts := removeAll logId (activeTimeouts s)\<rparr>
      in (case flt RtUpdateFailed of
            Some finalErr \<Rightarrow> s1
          | None \<Rightarrow> s1\<lparr>db := rtl_updateStatusById now logId FAILED (Some (err_message err))
                                  (db s1)\<rparr>))"

text \<open>
  \<open>processMessage(log)\<close>: \<open>log\<close> is the row as the poller read it.  After a send the
  row is \<open>SENT\<close> and its ACK timer is armed; the timer, when it fires, runs
  \<open>processFailure\<close> with the reason \<open>ack_timeout_reason\<close>.
\<close>

definition processMessage :: "nat \<Rightarrow> (rt_call \<Rightarrow> js_error option) \<Rightarrow> report_transmit_log
                                \<Rightarrow> cs_state \<Rightarrow> cs_state" where
  "processMessage now flt log s =
     (let logId = rtl_id log
      in if rtl_retry_count log > reportTransmit_MAX_RETRIES
         then processMessage_catch now flt logId (Error msg_max_retries) s
         else if \<not> connected s then s
         else
          (case report_cap flt log (db s) of
             Inl err \<Rightarrow> processMessage_catch now flt logId err s
           | Inr capObject \<Rightarrow>
              (let s1 = send \<lparr>frame_messageId = MESSAGE_IDS (rtl_type log),
                               frame_xml = Report capObject\<rparr> s
               in (case flt RtUpdateSent of
                     Some err \<Rightarrow> processMessage_catch now flt logId err s1
                   | None \<Rightarrow>
                       s1\<lparr>db := rtl_updateStatusById now logId SENT None (db s1),
                          activeTimeouts := removeAll logId (activeTimeouts s1) @ [logId]\<rparr>))))"

text \<open>
  \<open>_run()\<close> of the report transmit worker: read the unprocessed rows and hand each to
  \<open>processMessage\<close>.  The tasks are run here one after the other, in the order of the
  rows.
\<close>

fun processMessages :: "nat \<Rightarrow> (rt_call \<Rightarrow> js_error option) \<Rightarrow> report_transmit_log list
                          \<Rightarrow> cs_state \<Rightarrow> cs_state" where
  "processMessages now flt [] s = s"
| "processMessages now flt (m # ms) s = processMessages now flt ms (processMessage now flt m s)"

definition reportTransmitWorker_run :: "nat \<Rightarrow> (rt_call \<Rightarrow> js_error option) \<Rightarrow> cs_state \<Rightarrow> cs_state" where
  "reportTransmitWorker_run now flt s =
     (case flt RtFindUnprocessed of
        Some err \<Rightarrow> s
      | None \<Rightarrow> processMessages now flt (rtl_findUnprocessedMessages now (db s)) s)"

text \<open>
  The ACK or NACK of a report as \<open>xml2js\<close> returns it; \<open>ad_transMsgSeq\<close> is
  \<open>None\<close> when the element is missing or not a number.
\<close>

record ack_data =
  ad_transMsgId :: "string option"
  ad_transMsgSeq :: "nat option"
  ad_resultCode :: "string option"
  ad_result :: "string option"

text \<open>
  \<open>processAck(messageBodyBuffer)\<close>; \<open>parsed\<close> is \<open>result.data\<close>, \<open>None\<close> when
  the XML parser throws.
\<close>

definition processAck :: "nat \<Rightarrow> (rt_call \<Rightarrow> js_error option) \<Rightarrow> ack_data option
                            \<Rightarrow> cs_state \<Rightarrow> cs_state" where
  "processAck now flt parsed s =
     (case parsed of
        None \<Rightarrow> s
      | Some data \<Rightarrow>
         (case (ad_transMsgId data, ad_transMsgSeq data) of
            (Some outboundId, Some reportSequence) \<Rightarrow>
              (if outboundId = [] \<or> flt RtFindByOutbound \<noteq> None then s
               else
                (case findByOutboundIdAndReportSequence outboundId reportSequence (db s) of
                   None \<Rightarrow> s
                 | Some currentLog \<Rightarrow>
                    (let logId = rtl_id currentLog;
                         s1 = s\<lparr>activeTimeouts := removeAll logId (activeTimeouts s)\<rparr>
                     in if rtl_status currentLog = FAILED \<or> rtl_status currentLog = SUCCESS
                        then s1
                        else if js_string (ad_resultCode data) = ''200''
                        then (case flt RtUpdateSuccess of
                                Some err \<Rightarrow>
                                  processFailure now flt logId (rtl_retry_count currentLog)
                                    (msg_ack_error @ err_message err) s1
                              | None \<Rightarrow>
                                  s1\<lparr>db := rtl_updateStatusById now logId SUCCESS None (db s1)\<rparr>)
                        else processFailure now flt logId (rtl_retry_count currentLog)
                               (''Received NACK Response: '' @
                                  (if falsy (ad_result data)
                                   then ''Error code '' @ js_string (ad_resultCode data)
                                   else js_string (ad_result data))) s1)))
          | _ \<Rightarrow> s))"

section \<open>External service: configuration and tables\<close>

text \<open>\<open>disasterTransmitWorker\<close> and \<open>rabbitmq\<close> of the external service's configuration.\<close>

definition disasterTransmit_MAX_RETRIES :: nat where "disasterTransmit_MAX_RETRIES = 3"
definition disasterTransmit_TRANSMISSION_TIMEOUT :: nat where
  "disasterTransmit_TRANSMISSION_TIMEOUT = 10000"
definition es_rabbitmq_MAX_RETRIES :: nat where "es_rabbitmq_MAX_RETRIES = 3"
definition DISASTER_RETRY_EXCHANGE :: string where "DISASTER_RETRY_EXCHANGE = ''disaster_retry''"

record external_system =
  es_id :: nat
  system_name :: string
  api_key :: string
  subscribed_event_codes :: "string list"
  is_active :: bool

text \<open>
  The payload of \<open>disaster.*\<close> as \<open>JSON.parse\<close> returns it.  A property the
  content does not carry is \<open>None\<close> (\<open>undefined\<close>).
\<close>

record disaster_payload =
  dp_identifier :: "string option"
  dp_eventCode :: "string option"
  dp_rawMessage :: "received_data option"

record disaster_transmit_log =
  dtl_id :: nat
  dtl_mq_receive_log_id :: nat
  external_system_id :: nat
  dtl_identifier :: string
  dtl_raw_message :: disaster_payload
  dtl_status :: status
  dtl_retry_count :: nat
  dtl_updated_at :: "nat option"

record connection_log =
  cl_externalSystemId :: nat
  cl_eventType :: string
  cl_ipAddress :: string
  cl_detail :: string

record es_db =
  external_systems :: "external_system list"
  disaster_transmit_logs :: "disaster_transmit_log list"
  es_mq_receive_logs :: "mq_receive_log list"
  connection_logs :: "connection_log list"
  dtl_seq :: nat
  es_mrl_seq :: nat

text \<open>
  The writes of the external service's broker consumer through its client:
  the batch \<open>INSERT ... ON CONFLICT (external_system_id, identifier) DO NOTHING\<close> and
  the update of the inbox row.
\<close>

datatype es_write =
    DtlInsertBulk "disaster_transmit_log list"
  | EsMqUpdateStatus nat status "string option"

fun dtl_insert_all :: "disaster_transmit_log list \<Rightarrow> disaster_transmit_log list
                         \<Rightarrow> disaster_transmit_log list" where
  "dtl_insert_all [] tbl = tbl"
| "dtl_insert_all (r # rs) tbl =
     dtl_insert_all rs
       (if (external_system_id r, dtl_identifier r)
             \<in> set (map (\<lambda>x. (external_system_id x, dtl_identifier x)) tbl)
        then tbl else tbl @ [r])"

fun es_apply_write :: "es_write \<Rightarrow> es_db \<Rightarrow> es_db" where
  "es_apply_write (DtlInsertBulk rs) d =
     d\<lparr>disaster_transmit_logs := dtl_insert_all rs (disaster_transmit_logs d)\<rparr>"
| "es_apply_write (EsMqUpdateStatus i st err) d =
     d\<lparr>es_mq_receive_logs :=
         map (\<lambda>r. if mrl_id r = i then r\<lparr>mrl_status := st, mrl_error_message := err\<rparr> else r)
             (es_mq_receive_logs d)\<rparr>"

record es_client =
  es_in_tx :: bool
  es_pending :: "es_write list"

definition es_client_query :: "es_client \<Rightarrow> es_write \<Rightarrow> es_db \<Rightarrow> es_client \<times> es_db" where
  "es_client_query c w d =
     (if es_in_tx c then (c\<lparr>es_pending := es_pending c @ [w]\<rparr>, d) else (c, es_apply_write w d))"

definition es_client_commit :: "es_client \<Rightarrow> es_db \<Rightarrow> es_db" where
  "es_client_commit c d = foldl (\<lambda>x w. es_apply_write w x) d (es_pending c)"

text \<open>A Socket.IO socket: its id, the system the handshake authenticated, its address.\<close>

record socket =
  socket_id :: string
  system :: "(nat \<times> string) option"
  handshake_address :: string

text \<open>What \<open>emit('disaster', payload, callback)\<close> sends.\<close>

record emit_payload =
  ep_logId :: nat
  ep_identifier :: string
  ep_rawMessage :: disaster_payload

text \<open>
  The effects of the session manager in the order the program performs them: a row
  written to \<open>connection_logs\<close>, a socket closed with \<open>disconnect(true)\<close>, a key
  deleted from \<open>activeSockets\<close>, a socket stored under a key.
\<close>

datatype sm_event =
    LogWritten connection_log
  | Disconnected socket
  | MapDeleted nat
  | MapSet nat socket

text \<open>
  The state of the external service: the database, the map \<open>activeSockets\<close>, the
  trace of the session manager's effects, the calls made on the broker channel, the
  events emitted to sockets, the ids of the rows whose ACK timer is armed, and the
  ids of the rows whose emit callback has not been called yet.
\<close>

record es_state =
  es_database :: es_db
  activeSockets :: "nat \<Rightarrow> socket option"
  sm_events :: "sm_event list"
  es_channel :: "broker_action list"
  emitted :: "(socket \<times> emit_payload) list"
  es_timers :: "nat list"
  es_callbacks :: "nat list"

section \<open>External service: sessionManager.js\<close>

datatype sm_call = LogOldDisconnected | LogConnected | LogDisconnected

definition detail_replaced :: "string \<Rightarrow> string \<Rightarrow> string" where
  "detail_replaced oldId newId =
     utf8 [234, 184, 176, 236, 161, 180, 32, 236, 151, 176, 234, 178, 176]
     @ ''(Socket ID: '' @ oldId @ '')''
     @ utf8 [236, 157, 132, 32, 235, 129, 138, 234, 179, 160, 32, 236, 131, 136, 32, 236, 151,
             176, 234, 178, 176]
     @ ''(Socket ID: '' @ newId @ '') '' @ utf8 [236, 139, 156, 235, 143, 132, 46]"

definition detail_connected :: "string \<Rightarrow> string" where
  "detail_connected newId =
     utf8 [236, 131, 136, 235, 161, 156, 236, 154, 180, 32, 236, 151, 176, 234, 178, 176]
     @ ''(Socket ID: '' @ newId @ '') '' @ utf8 [236, 153, 132, 235, 163, 140, 46]"

text \<open>\<open>connectionLogRepository.create\<close>: one more row in \<open>connection_logs\<close>.\<close>

definition connectionLog_create :: "connection_log \<Rightarrow> es_state \<Rightarrow> es_state" where
  "connectionLog_create l s =
     s\<lparr>es_database := (es_database s)\<lparr>connection_logs := connection_logs (es_database s) @ [l]\<rparr>,
       sm_events := sm_events s @ [LogWritten l]\<rparr>"

text \<open>
  \<open>addSocket(socket)\<close> is an \<open>async\<close> function that \<open>index.js\<close> calls without
  waiting for it.  It runs in two parts.  \<open>addSocket_begin\<close> is the part up to the
  first \<open>await\<close>: it reads \<open>existingSocket\<close> from the map and, if there is one,
  asks for the \<open>SOCKET_DISCONNECTED\<close> row to be written; while the function waits for
  the database, other handlers run.  \<open>addSocket_resume\<close> is the part that runs when
  the write has returned: with the \<open>existingSocket\<close> read in the first part it closes
  that socket, deletes the key, stores the new socket and writes the
  \<open>SOCKET_CONNECTED\<close> row.  Without an existing socket nothing is awaited between
  the two parts.  \<open>Inl\<close> and the first component of the result are the error the
  returned promise is rejected with: a socket without \<open>system\<close> makes
  \<open>socket.system.id\<close> throw, and a failed write of a log row ends the function there.
\<close>

definition addSocket_begin :: "socket \<Rightarrow> es_state \<Rightarrow> js_error + socket option" where
  "addSocket_begin sock s =
     (case system sock of
        None \<Rightarrow> Inl \<lparr>err_name = ''TypeError'', err_message = ''socket.system is undefined''\<rparr>
      | Some (systemId, systemName) \<Rightarrow> Inr (activeSockets s systemId))"

definition addSocket_resume :: "(sm_call \<Rightarrow> js_error option) \<Rightarrow> socket \<Rightarrow> socket option
                                  \<Rightarrow> es_state \<Rightarrow> js_error option \<times> es_state" where
  "addSocket_resume flt sock existing s =
     (case system sock of
        None \<Rightarrow> (Some \<lparr>err_name = ''TypeError'', err_message = ''socket.system is undefined''\<rparr>, s)
      | Some (systemId, systemName) \<Rightarrow>
         (let old = (case existing of
                       None \<Rightarrow> Inr s
                     | Some existingSocket \<Rightarrow>
                        (case flt LogOldDisconnected of
                           Some e \<Rightarrow> Inl e
                         | None \<Rightarrow>
                            (let s1 = connectionLog_create
                                   \<lparr>cl_externalSystemId = systemId,
                                    cl_eventType = ''SOCKET_DISCONNECTED'',
                                    cl_ipAddress = handshake_address existingSocket,
                                    cl_detail = detail_replaced (socket_id existingSocket)
                                                  (socket_id sock)\<rparr> s;
                                 s2 = s1\<lparr>sm_events := sm_events s1 @ [Disconnected existingSocket]\<rparr>
                             in Inr (s2\<lparr>activeSockets := (activeSockets s2)(systemId := None),
                                        sm_events := sm_events s2 @ [MapDeleted systemId]\<rparr>))))
          in (case old of
                Inl e \<Rightarrow> (Some e, s)
              | Inr s3 \<Rightarrow>
                 (let s4 = s3\<lparr>activeSockets := (activeSockets s3)(systemId \<mapsto> sock),
                             sm_events := sm_events s3 @ [MapSet systemId sock]\<rparr>
                  in (case flt LogConnected of
                        Some e \<Rightarrow> (Some e, s4)
                      | None \<Rightarrow>
                         (None, connectionLog_create
                                  \<lparr>cl_externalSystemId = systemId,
                                   cl_eventType = ''SOCKET_CONNECTED'',
                                   cl_ipAddress = handshake_address sock,
                                   cl_detail = detail_connected (socket_id sock)\<rparr> s4))))))"

text \<open>A call of \<open>addSocket\<close> during which no other handler runs.\<close>

definition addSocket :: "(sm_call \<Rightarrow> js_error option) \<Rightarrow> socket \<Rightarrow> es_state
                           \<Rightarrow> js_error option \<times> es_state" where
  "addSocket flt sock s =
     (case addSocket_begin sock s of
        Inl e \<Rightarrow> (Some e, s)
      | Inr existing \<Rightarrow> addSocket_resume flt sock existing s)"

text \<open>
  \<open>removeSocket(socket, reason)\<close>.  \<open>===\<close> on sockets is identity of the objects;
  a socket id belongs to one connection, so it is equality of the records here.
\<close>

definition removeSocket :: "(sm_call \<Rightarrow> js_error option) \<Rightarrow> socket \<Rightarrow> string \<Rightarrow> es_state
                              \<Rightarrow> js_error option \<times> es_state" where
  "removeSocket flt sock reason s =
     (case system sock of
        None \<Rightarrow> (None, s)
      | Some (systemId, systemName) \<Rightarrow>
         (if systemId = 0 then (None, s)
          else
           (case activeSockets s systemId of
              None \<Rightarrow> (None, s)
            | Some current \<Rightarrow>
               (if current = sock
                then
                 (let s1 = s\<lparr>activeSockets := (activeSockets s)(systemId := None),
                             sm_events := sm_events s @ [MapDeleted systemId]\<rparr>
                  in (case flt LogDisconnected of
                        Some dbErr \<Rightarrow> (Some dbErr, s1)
                      | None \<Rightarrow>
                         (None, connectionLog_create
                                  \<lparr>cl_externalSystemId = systemId,
                                   cl_eventType = ''SOCKET_DISCONNECTED'',
                                   cl_ipAddress = handshake_address sock,
                                   cl_detail = reason\<rparr> s1)))
                else (None, s)))))"

definition getSocketBySystemId :: "nat \<Rightarrow> es_state \<Rightarrow> socket option" where
  "getSocketBySystemId systemId s = activeSockets s systemId"

section \<open>External service: validator.js and disasterTransmitLogRepository.js\<close>

definition msg_unknown_identifier :: "string \<Rightarrow> string" where
  "msg_unknown_identifier ident =
     utf8 [236, 161, 180, 236, 158, 172, 237, 149, 152, 236, 167, 128, 32, 236, 149, 138, 235,
           138, 148, 32, 236, 158, 172, 235, 130, 156, 32, 236, 160, 149, 235, 179, 180, 32, 236,
           139, 157, 235, 179, 132, 236, 158, 144]
     @ ''(identifier)'' @ utf8 [236, 158, 133, 235, 139, 136, 235, 139, 164] @ '': '' @ ident"

text \<open>
  \<open>existsByIdentifier(identifier)\<close>: \<open>SELECT 1 FROM disaster_transmit_logs WHERE
  identifier = $1 LIMIT 1\<close> returns a row.
\<close>

definition existsByIdentifier :: "string \<Rightarrow> es_db \<Rightarrow> bool" where
  "existsByIdentifier ident d = (ident \<in> set (map dtl_identifier (disaster_transmit_logs d)))"

text \<open>
  \<open>isExistingIdentifier(identifier)\<close>, the custom validator of the \<open>identifier\<close>
  field of a disaster-result report: \<open>Inr True\<close> accepts, \<open>Inl\<close> is the error that
  rejects.  \<open>flt\<close> is the error of the query, if it throws.
\<close>

definition isExistingIdentifier :: "js_error option \<Rightarrow> string \<Rightarrow> es_db \<Rightarrow> js_error + bool" where
  "isExistingIdentifier flt ident d =
     (case flt of
        Some e \<Rightarrow> Inl e
      | None \<Rightarrow>
         (if \<not> existsByIdentifier ident d then Inl (Error (msg_unknown_identifier ident))
          else Inr True))"

text \<open>
  The reading of the specification: the identifier exists in a row of
  \<open>disaster_transmit_logs\<close> that belongs to the submitting subscriber.
\<close>

definition spec_existsForSubscriber :: "nat \<Rightarrow> string \<Rightarrow> es_db \<Rightarrow> bool" where
  "spec_existsForSubscriber subscriberId ident d =
     ((subscriberId, ident)
        \<in> set (map (\<lambda>x. (external_system_id x, dtl_identifier x)) (disaster_transmit_logs d)))"

section \<open>External service: broker consumer (messageBrokerService.js)\<close>

text \<open>\<open>mqReceiveLogRepository.create\<close> of the external service, through the pool.\<close>

definition es_mq_create :: "string \<Rightarrow> es_db \<Rightarrow> nat \<times> es_db" where
  "es_mq_create rawMessage d =
     (let i = Suc (es_mrl_seq d)
      in (i, d\<lparr>es_mrl_seq := i,
               es_mq_receive_logs := es_mq_receive_logs d @
                 [\<lparr>mrl_id = i, mrl_raw_message = rawMessage, mrl_status = PENDING,
                   mrl_error_message = None\<rparr>]\<rparr>))"

text \<open>
  \<open>externalSystemRepository.findBySubscribedEventCode\<close>; an undefined event code is
  the parameter \<open>NULL\<close>, which equals no element.
\<close>

definition findBySubscribedEventCode :: "string option \<Rightarrow> es_db \<Rightarrow> external_system list" where
  "findBySubscribedEventCode eventCode d =
     (case eventCode of
        None \<Rightarrow> []
      | Some ec \<Rightarrow>
          filter (\<lambda>x. ec \<in> set (subscribed_event_codes x) \<and> is_active x) (external_systems d))"

text \<open>
  The rows \<open>createBulk\<close> inserts for the subscribed systems; each takes the next value
  of the sequence.
\<close>

fun logsToCreate :: "nat \<Rightarrow> string \<Rightarrow> disaster_payload \<Rightarrow> nat \<Rightarrow> external_system list
                       \<Rightarrow> disaster_transmit_log list" where
  "logsToCreate mqReceiveLogId ident messageContent sq [] = []"
| "logsToCreate mqReceiveLogId ident messageContent sq (x # xs) =
     \<lparr>dtl_id = Suc sq, dtl_mq_receive_log_id = mqReceiveLogId, external_system_id = es_id x,
      dtl_identifier = ident, dtl_raw_message = messageContent,
      dtl_status = PENDING, dtl_retry_count = 0, dtl_updated_at = None\<rparr>
     # logsToCreate mqReceiveLogId ident messageContent (Suc sq) xs"

text \<open>
  The inner \<open>try\<close> block of \<open>_consumeDisasterMessage\<close>, from \<open>BEGIN\<close> to
  \<open>COMMIT\<close>; \<open>Inl\<close> is the error thrown, with the database at that point.  The
  column \<open>disaster_transmit_logs.identifier\<close> is \<open>NOT NULL\<close>: the batch is rejected at
  its first row when the payload has no identifier.
\<close>

definition disaster_tx :: "(mq_call \<Rightarrow> js_error option) \<Rightarrow> (string \<Rightarrow> disaster_payload option)
                             \<Rightarrow> string \<Rightarrow> nat \<Rightarrow> es_db \<Rightarrow> (js_error \<times> es_db) + es_db" where
  "disaster_tx flt JSON_parse messageString mqReceiveLogId d0 =
     (case flt MqBegin of
        Some e \<Rightarrow> Inl (e, d0)
      | None \<Rightarrow>
         (let c1 = \<lparr>es_in_tx = True, es_pending = []\<rparr>
          in (case JSON_parse messageString of
                None \<Rightarrow> Inl (\<lparr>err_name = ''SyntaxError'', err_message = ''Unexpected token''\<rparr>, d0)
              | Some messageContent \<Rightarrow>
                 (case flt MqLookup of
                    Some e \<Rightarrow> Inl (e, d0)
                  | None \<Rightarrow>
                     (let subscribedSystems =
                            findBySubscribedEventCode (dp_eventCode messageContent) d0
                      in if subscribedSystems \<noteq> [] \<and> flt MqCreateOutbox \<noteq> None
                         then Inl (case flt MqCreateOutbox of Some e \<Rightarrow> e | None \<Rightarrow> Error [], d0)
                         else
                         if subscribedSystems \<noteq> [] \<and> dp_identifier messageContent = None
                         then Inl (\<lparr>err_name = ''error'',
                                    err_message = msg_not_null ''disaster_transmit_logs''
                                                    ''identifier''\<rparr>,
                                   d0\<lparr>dtl_seq := Suc (dtl_seq d0)\<rparr>)
                         else
                          (let q2 = (if subscribedSystems \<noteq> []
                                     then es_client_query c1
                                            (DtlInsertBulk (logsToCreate mqReceiveLogId
                                               (js_string (dp_identifier messageContent))
                                               messageContent (dtl_seq d0) subscribedSystems))
                                            (d0\<lparr>dtl_seq := dtl_seq d0 + length subscribedSystems\<rparr>)
                                     else (c1, d0))
                           in (case flt MqUpdateSuccess of
                                 Some e \<Rightarrow> Inl (e, snd q2)
                               | None \<Rightarrow>
                                  (let q3 = es_client_query (fst q2)
                                              (EsMqUpdateStatus mqReceiveLogId SUCCESS None) (snd q2)
                                   in (case flt MqCommit of
                                         Some e \<Rightarrow> Inl (e, snd q3)
                                       | None \<Rightarrow> Inr (es_client_commit (fst q3) (snd q3)))))))))))"

text \<open>
  The outer \<open>catch\<close> block.  Here a failed republish is answered with \<open>nack\<close>.
\<close>

definition disaster_retry :: "(mq_call \<Rightarrow> js_error option) \<Rightarrow> amqp_message \<Rightarrow> js_error \<Rightarrow> nat option
                                \<Rightarrow> es_state \<Rightarrow> es_state" where
  "disaster_retry flt msg err mqReceiveLogId s =
     (let retryCount = (case x_retry_count msg of None \<Rightarrow> 0 | Some n \<Rightarrow> n)
      in if retryCount < es_rabbitmq_MAX_RETRIES
         then (case flt MqPublishRetry of
                 Some publishErr \<Rightarrow> s\<lparr>es_channel := es_channel s @ [Nack (deliveryTag msg)]\<rparr>
               | None \<Rightarrow>
                   s\<lparr>es_channel := es_channel s @
                        [Publish DISASTER_RETRY_EXCHANGE (msg_routingKey msg) (content msg)
                           (Some (retryCount + 1)),
                         Ack (deliveryTag msg)]\<rparr>)
         else
           (let s1 = s\<lparr>es_channel := es_channel s @ [Nack (deliveryTag msg)]\<rparr>
            in (case mqReceiveLogId of
                  None \<Rightarrow> s1
                | Some i \<Rightarrow>
                   (case flt MqUpdateFailed of
                      Some e \<Rightarrow> s1
                    | None \<Rightarrow>
                       s1\<lparr>es_database := es_apply_write
                              (EsMqUpdateStatus i FAILED (Some (final_failed (err_message err))))
                              (es_database s1)\<rparr>))))"

text \<open>
  \<open>_consumeDisasterMessage(msg)\<close> for a delivery.  The inner \<open>catch\<close> rolls back and
  rethrows; when \<open>ROLLBACK\<close> itself throws, that error is the one the outer
  \<open>catch\<close> sees.
\<close>

definition consumeDisasterMessage :: "(mq_call \<Rightarrow> js_error option)
                                        \<Rightarrow> (string \<Rightarrow> disaster_payload option) \<Rightarrow> amqp_message
                                        \<Rightarrow> es_state \<Rightarrow> es_state" where
  "consumeDisasterMessage flt JSON_parse msg s =
     (case flt MqCreate of
        Some e \<Rightarrow> disaster_retry flt msg e None s
      | None \<Rightarrow>
         (let q = es_mq_create (content msg) (es_database s);
              s1 = s\<lparr>es_database := snd q\<rparr>
          in (case flt MqGetClient of
                Some e \<Rightarrow> disaster_retry flt msg e (Some (fst q)) s1
              | None \<Rightarrow>
                 (case disaster_tx flt JSON_parse (content msg) (fst q) (snd q) of
                    Inr d \<Rightarrow> s1\<lparr>es_database := d,
                               es_channel := es_channel s1 @ [Ack (deliveryTag msg)]\<rparr>
                  | Inl (dbErr, d) \<Rightarrow>
                      disaster_retry flt msg
                        (case flt MqRollback of Some rollbackErr \<Rightarrow> rollbackErr | None \<Rightarrow> dbErr)
                        (Some (fst q)) (s1\<lparr>es_database := d\<rparr>)))))"

fun consumeDisasterMessages :: "(mq_call \<Rightarrow> js_error option)
                                  \<Rightarrow> (string \<Rightarrow> disaster_payload option) \<Rightarrow> amqp_message list
                                  \<Rightarrow> es_state \<Rightarrow> es_state" where
  "consumeDisasterMessages flt JSON_parse [] s = s"
| "consumeDisasterMessages flt JSON_parse (m # ms) s =
     consumeDisasterMessages flt JSON_parse ms (consumeDisasterMessage flt JSON_parse m s)"

section \<open>External service: reliableTransmitService.js\<close>

datatype dt_call = DtFindById | DtIncrement | DtUpdateStatus | DtEmit

definition dtl_findById :: "nat \<Rightarrow> es_db \<Rightarrow> disaster_transmit_log option" where
  "dtl_findById logId d = find (\<lambda>r. dtl_id r = logId) (disaster_transmit_logs d)"

definition dtl_updateStatusById :: "nat \<Rightarrow> nat \<Rightarrow> status \<Rightarrow> es_db \<Rightarrow> es_db" where
  "dtl_updateStatusById now logId st d =
     d\<lparr>disaster_transmit_logs :=
         map (\<lambda>r. if dtl_id r = logId then r\<lparr>dtl_status := st, dtl_updated_at := Some now\<rparr> else r)
             (disaster_transmit_logs d)\<rparr>"

definition dtl_incrementRetryCount :: "nat \<Rightarrow> nat \<Rightarrow> es_db \<Rightarrow> es_db" where
  "dtl_incrementRetryCount now logId d =
     d\<lparr>disaster_transmit_logs :=
         map (\<lambda>r. if dtl_id r = logId
                   then r\<lparr>dtl_retry_count := dtl_retry_count r + 1, dtl_updated_at := Some now\<rparr>
                   else r)
             (disaster_transmit_logs d)\<rparr>"

text \<open>
  \<open>_processFailure(logId, currentRetryCount)\<close>: unless the row is gone or terminal,
  add one to its retry count, then \<open>FAILED\<close> when the count the caller had, plus one,
  exceeds \<open>MAX_RETRIES\<close>, else \<open>PENDING\<close>.
\<close>

definition es_processFailure :: "nat \<Rightarrow> (dt_call \<Rightarrow> js_error option) \<Rightarrow> nat \<Rightarrow> nat
                                   \<Rightarrow> es_state \<Rightarrow> es_state" where
  "es_processFailure now flt logId currentRetryCount s =
     (case flt DtFindById of
        Some dbErr \<Rightarrow> s
      | None \<Rightarrow>
         (case dtl_findById logId (es_database s) of
            None \<Rightarrow> s
          | Some currentLog \<Rightarrow>
             (if dtl_status currentLog = SUCCESS \<or> dtl_status currentLog = FAILED then s
              else
               (let assumedNextRetryCount = currentRetryCount + 1;
                    d1 = (case flt DtIncrement of
                            Some dbErr \<Rightarrow> es_database s
                          | None \<Rightarrow> dtl_incrementRetryCount now logId (es_database s));
                    d2 = (case flt DtUpdateStatus of
                            Some updateErr \<Rightarrow> d1
                          | None \<Rightarrow>
                             (if assumedNextRetryCount > disasterTransmit_MAX_RETRIES
                              then dtl_updateStatusById now logId FAILED d1
                              else dtl_updateStatusById now logId PENDING d1))
                in s\<lparr>es_database := d2\<rparr>))))"

text \<open>\<open>_processAck(logId)\<close>.\<close>

definition es_processAck :: "nat \<Rightarrow> (dt_call \<Rightarrow> js_error option) \<Rightarrow> nat \<Rightarrow> es_state \<Rightarrow> es_state" where
  "es_processAck now flt logId s =
     (case flt DtFindById of
        Some err \<Rightarrow> s
      | None \<Rightarrow>
         (case map_option dtl_status (dtl_findById logId (es_database s)) of
            Some SUCCESS \<Rightarrow> s
          | Some FAILED \<Rightarrow> s
          | _ \<Rightarrow>
             (case flt DtUpdateStatus of
                Some err \<Rightarrow> s
              | None \<Rightarrow> s\<lparr>es_database := dtl_updateStatusById now logId SUCCESS (es_database s)\<rparr>)))"

text \<open>
  \<open>_processMessage(logId)\<close> up to the \<open>emit\<close>.  After an emit the ACK timer of the
  row is armed; the callback of the client and the timer are \<open>on_response\<close> and
  \<open>on_timeout\<close> below.
\<close>

definition es_processMessage :: "nat \<Rightarrow> (dt_call \<Rightarrow> js_error option) \<Rightarrow> nat \<Rightarrow> es_state \<Rightarrow> es_state" where
  "es_processMessage now flt logId s =
     (case flt DtFindById of
        Some err \<Rightarrow> s
      | None \<Rightarrow>
         (case dtl_findById logId (es_database s) of
            None \<Rightarrow> s
          | Some currentLog \<Rightarrow>
             (if dtl_status currentLog = SUCCESS \<or> dtl_status currentLog = FAILED then s
              else
               (let currentRetryCount = dtl_retry_count currentLog
                in if currentRetryCount \<ge> disasterTransmit_MAX_RETRIES
                   then (case flt DtUpdateStatus of
                           Some err \<Rightarrow> es_processFailure now flt logId currentRetryCount s
                         | None \<Rightarrow> s\<lparr>es_database :=
                                       dtl_updateStatusById now logId FAILED (es_database s)\<rparr>)
                   else
                    (case getSocketBySystemId (external_system_id currentLog) s of
                       None \<Rightarrow>
                        (if dtl_status currentLog = SENT
                         then (case flt DtUpdateStatus of
                                 Some err \<Rightarrow> es_processFailure now flt logId currentRetryCount s
                               | None \<Rightarrow> s\<lparr>es_database :=
                                             dtl_updateStatusById now logId PENDING (es_database s)\<rparr>)
                         else s)
                     | Some targetSocket \<Rightarrow>
                        (case flt DtUpdateStatus of
                           Some err \<Rightarrow> es_processFailure now flt logId currentRetryCount s
                         | None \<Rightarrow>
                            (let s1 = s\<lparr>es_database :=
                                         dtl_updateStatusById now logId SENT (es_database s)\<rparr>
                             in (case flt DtEmit of
                                   Some emitErr \<Rightarrow>
                                     es_processFailure now flt logId currentRetryCount s1
                                 | None \<Rightarrow>
                                     s1\<lparr>emitted := emitted s1 @
                                          [(targetSocket,
                                            \<lparr>ep_logId = logId,
                                             ep_identifier = dtl_identifier currentLog,
                                             ep_rawMessage = dtl_raw_message currentLog\<rparr>)],
                                        es_timers := es_timers s1 @ [logId],
                                        es_callbacks := es_callbacks s1 @ [logId]\<rparr>))))))))"

text \<open>The response a client passes to the callback of the emit.\<close>

record emit_response =
  er_status :: "string option"
  er_logId :: "nat option"

definition on_response :: "nat \<Rightarrow> (dt_call \<Rightarrow> js_error option) \<Rightarrow> nat \<Rightarrow> nat
                             \<Rightarrow> emit_response option \<Rightarrow> es_state \<Rightarrow> es_state" where
  "on_response now flt logId currentRetryCount response s =
     (if logId \<notin> set (es_callbacks s) then s
      else
       (let s1 = s\<lparr>es_callbacks := remove1 logId (es_callbacks s),
                   es_timers := remove1 logId (es_timers s)\<rparr>
        in (case response of
              None \<Rightarrow> es_processFailure now flt logId currentRetryCount s1
            | Some r \<Rightarrow>
               (if er_status r = Some ''ack'' \<and> er_logId r = Some logId
                then es_processAck now flt logId s1
                else es_processFailure now flt logId currentRetryCount s1))))"

text \<open>The ACK timer fires (it was not cleared by the callback).\<close>

definition on_timeout :: "nat \<Rightarrow> (dt_call \<Rightarrow> js_error option) \<Rightarrow> nat \<Rightarrow> nat
                            \<Rightarrow> es_state \<Rightarrow> es_state" where
  "on_timeout now flt logId currentRetryCount s =
     (if logId \<notin> set (es_timers s) then s
      else es_processFailure now flt logId currentRetryCount
             (s\<lparr>es_timers := remove1 logId (es_timers s)\<rparr>))"

section \<open>authService.js: the digest response\<close>

text \<open>
  \<open>crypto.createHash('md5')\<close> is MD5 (RFC 1321) on the UTF-8 bytes of the string.
  Four 32-bit words of state; each 64-byte block is 16 little-endian words and runs
  through the 64 steps \<open>md5_indices\<close> (four rounds of 16) with the shift
  amounts \<open>md5_s\<close> and the constants \<open>md5_K\<close>.
\<close>

type_synonym u32 = "32 word"

definition md5_indices :: "nat list" where
  "md5_indices =
     [0, 1, 2, 3, 4, 5, 6, 7, 8, 9, 10, 11, 12, 13, 14, 15]
     @ [16, 17, 18, 19, 20, 21, 22, 23, 24, 25, 26, 27, 28, 29, 30, 31]
     @ [32, 33, 34, 35, 36, 37, 38, 39, 40, 41, 42, 43, 44, 45, 46, 47]
     @ [48, 49, 50, 51, 52, 53, 54, 55, 56, 57, 58, 59, 60, 61, 62, 63]"

definition md5_s :: "nat list" where
  "md5_s =
   [7, 12, 17, 22, 7, 12, 17, 22, 7, 12, 17, 22, 7, 12, 17, 22, 5, 9, 14, 20, 5, 9, 14, 20,
    5, 9, 14, 20, 5, 9, 14, 20, 4, 11, 16, 23, 4, 11, 16, 23, 4, 11, 16, 23, 4, 11, 16, 23,
    6, 10, 15, 21, 6, 10, 15, 21, 6, 10, 15, 21, 6, 10, 15, 21]"

definition md5_K :: "u32 list" where
  "md5_K =
   [0xd76aa478, 0xe8c7b756, 0x242070db, 0xc1bdceee, 0xf57c0faf, 0x4787c62a, 0xa8304613,
    0xfd469501, 0x698098d8, 0x8b44f7af, 0xffff5bb1, 0x895cd7be, 0x6b901122, 0xfd987193,
    0xa679438e, 0x49b40821, 0xf61e2562, 0xc040b340, 0x265e5a51, 0xe9b6c7aa, 0xd62f105d,
    0x02441453, 0xd8a1e681, 0xe7d3fbc8, 0x21e1cde6, 0xc33707d6, 0xf4d50d87, 0x455a14ed,
    0xa9e3e905, 0xfcefa3f8, 0x676f02d9, 0x8d2a4c8a, 0xfffa3942, 0x8771f681, 0x6d9d6122,
    0xfde5380c, 0xa4beea44, 0x4bdecfa9, 0xf6bb4b60, 0xbebfbc70, 0x289b7ec6, 0xeaa127fa,
    0xd4ef3085, 0x04881d05, 0xd9d4d039, 0xe6db99e5, 0x1fa27cf8, 0xc4ac5665, 0xf4292244,
    0x432aff97, 0xab9423a7, 0xfc93a039, 0x655b59c3, 0x8f0ccc92, 0xffeff47d, 0x85845dd1,
    0x6fa87e4f, 0xfe2ce6e0, 0xa3014314, 0x4e0811a1, 0xf7537e82, 0xbd3af235, 0x2ad7d2bb,
    0xeb86d391]"

definition rotl32 :: "u32 \<Rightarrow> nat \<Rightarrow> u32" where
  "rotl32 x n = (push_bit n x) OR (drop_bit (32 - n) x)"

text \<open>The padding: a 1 bit, zeros up to 56 modulo 64, the bit length in 64 bits.\<close>

definition le_bytes8 :: "nat \<Rightarrow> byte list" where
  "le_bytes8 v =
     [of_nat v, of_nat (v div 2 ^ 8), of_nat (v div 2 ^ 16), of_nat (v div 2 ^ 24),
      of_nat (v div 2 ^ 32), of_nat (v div 2 ^ 40), of_nat (v div 2 ^ 48), of_nat (v div 2 ^ 56)]"

definition md5_pad :: "byte list \<Rightarrow> byte list" where
  "md5_pad m =
     m @ [0x80] @ replicate ((119 - length m mod 64) mod 64) 0 @ le_bytes8 (8 * length m)"

text \<open>The little-endian 32-bit words of a byte list whose length is a multiple of 4.\<close>

fun le_words :: "byte list \<Rightarrow> u32 list" where
  "le_words (b0 # b1 # b2 # b3 # rest) =
     (ucast b0 OR push_bit 8 (ucast b1) OR push_bit 16 (ucast b2) OR push_bit 24 (ucast b3))
     # le_words rest"
| "le_words _ = []"

text \<open>Step \<open>i\<close> of the 64 on the state \<open>(a, b, c, d)\<close> with the block words \<open>M\<close>.\<close>

definition md5_step :: "u32 list \<Rightarrow> u32 \<times> u32 \<times> u32 \<times> u32 \<Rightarrow> nat \<Rightarrow> u32 \<times> u32 \<times> u32 \<times> u32" where
  "md5_step M st i =
     (case st of (a, b, c, d) \<Rightarrow>
        (let f = (if i < 16 then (b AND c) OR (NOT b AND d)
                  else if i < 32 then (d AND b) OR (NOT d AND c)
                  else if i < 48 then b XOR c XOR d
                  else c XOR (b OR NOT d));
             g = (if i < 16 then i
                  else if i < 32 then (5 * i + 1) mod 16
                  else if i < 48 then (3 * i + 5) mod 16
                  else (7 * i) mod 16)
         in (d, b + rotl32 (f + a + md5_K ! i + M ! g) (md5_s ! i), b, c)))"

definition md5_block :: "u32 \<times> u32 \<times> u32 \<times> u32 \<Rightarrow> u32 list \<Rightarrow> u32 \<times> u32 \<times> u32 \<times> u32" where
  "md5_block st M =
     (case (st, foldl (md5_step M) st md5_indices) of
        ((a0, b0, c0, d0), (a, b, c, d)) \<Rightarrow> (a0 + a, b0 + b, c0 + c, d0 + d))"

text \<open>The blocks of 16 words, one after the other.\<close>

fun md5_blocks :: "u32 \<times> u32 \<times> u32 \<times> u32 \<Rightarrow> u32 list \<Rightarrow> u32 \<times> u32 \<times> u32 \<times> u32" where
  "md5_blocks st (w0 # w1 # w2 # w3 # w4 # w5 # w6 # w7 # w8 # w9 # w10 # w11 # w12 # w13
                  # w14 # w15 # rest) =
     md5_blocks (md5_block st [w0, w1, w2, w3, w4, w5, w6, w7, w8, w9, w10, w11, w12, w13,
                               w14, w15]) rest"
| "md5_blocks st _ = st"

definition le_bytes4 :: "u32 \<Rightarrow> byte list" where
  "le_bytes4 w = [ucast w, ucast (drop_bit 8 w), ucast (drop_bit 16 w), ucast (drop_bit 24 w)]"

definition md5 :: "byte list \<Rightarrow> byte list" where
  "md5 m =
     (case md5_blocks (0x67452301, 0xefcdab89, 0x98badcfe, 0x10325476) (le_words (md5_pad m)) of
        (a, b, c, d) \<Rightarrow> le_bytes4 a @ le_bytes4 b @ le_bytes4 c @ le_bytes4 d)"

text \<open>\<open>digest('hex')\<close>: two lower-case hexadecimal digits per byte.\<close>

definition hex_digit :: "byte \<Rightarrow> char" where
  "hex_digit n = ''0123456789abcdef'' ! unat n"

definition hex :: "byte list \<Rightarrow> string" where
  "hex bs = concat (map (\<lambda>b. [hex_digit (drop_bit 4 b), hex_digit (b AND 15)]) bs)"

definition md5_hex :: "string \<Rightarrow> string" where
  "md5_hex s = hex (md5 (map (\<lambda>c. of_nat (of_char c)) s))"

text \<open>\<open>toUpperCase()\<close>, on the letters \<open>a\<close> to \<open>z\<close>.\<close>

definition upper_char :: "char \<Rightarrow> char" where
  "upper_char c =
     (case map_of (zip ''abcdefghijklmnopqrstuvwxyz'' ''ABCDEFGHIJKLMNOPQRSTUVWXYZ'') c of
        None \<Rightarrow> c
      | Some u \<Rightarrow> u)"

definition toUpperCase :: "string \<Rightarrow> string" where
  "toUpperCase s = map upper_char s"

text \<open>\<open>_md5(string)\<close>: the MD5 of the string as an upper-case hexadecimal string.\<close>

definition md5_upper :: "string \<Rightarrow> string" where
  "md5_upper s = toUpperCase (md5_hex s)"

text \<open>\<open>calculateResponse({ realm, nonce })\<close>.\<close>

definition calculateResponse :: "cs_config \<Rightarrow> string \<Rightarrow> string \<Rightarrow> string" where
  "calculateResponse cfg realm nonce =
     (let a1String = DEST_ID cfg @ '':'' @ realm @ '':'' @ PASSWORD cfg;
          a1 = md5_upper a1String;
          responseString = a1 @ '':'' @ nonce
      in md5_upper responseString)"

text \<open>
  The formula of the specification, \<open>MD5(MD5(destId:realm:password):nonce).upper()\<close>:
  the hexadecimal MD5 of the inner string is taken as \<open>digest('hex')\<close> gives it, and
  only the outer result is put in upper case.
\<close>

definition spec_response :: "string \<Rightarrow> string \<Rightarrow> string \<Rightarrow> string \<Rightarrow> string" where
  "spec_response destId realm password nonce =
     toUpperCase (md5_hex (md5_hex (destId @ '':'' @ realm @ '':'' @ password) @ '':'' @ nonce))"

section \<open>Example data\<close>

text \<open>Concrete configurations, rows and states on which the program is run below.\<close>

definition example_config :: cs_config where
  "example_config = \<lparr>CENTRAL_SYSTEM_SENDER_ID = ''cas@korea.kr'',
     CENTRAL_SERVICE_SENDER_ID = ''gateway@korea.kr'', DEST_ID = ''a'', PASSWORD = ''c''\<rparr>"

definition empty_cs_db :: cs_db where
  "empty_cs_db = \<lparr>tcp_receive_logs = [], disaster_publish_logs = [], mq_receive_logs = [],
     report_transmit_logs = [], trl_seq = 0, dpl_seq = 0, mrl_seq = 0, rtl_seq = 0\<rparr>"

definition empty_cs_state :: cs_state where
  "empty_cs_state = \<lparr>db = empty_cs_db, connected = True, sent_frames = [], activeTimeouts = [],
     channel = []\<rparr>"

definition no_fault :: "'c \<Rightarrow> js_error option" where
  "no_fault c = None"






text \<open>The same with sequence 1.\<close>

definition example_alert :: "string option \<Rightarrow> string \<Rightarrow> received_data" where
  "example_alert sndr ec =
     \<lparr>transMsgId = Some ''T1'', transMsgSeq = Some ''1'',
      capInfo = Some \<lparr>alert = Some \<lparr>alert_identifier = Some ''A1'', alert_sender = sndr,
                                    alert_sent = Some ''2025-01-01T00:00:00+09:00'',
                                    eventCode_value = Some ec\<rparr>\<rparr>\<rparr>"


text \<open>A device-info report row, as the broker consumer inserts it, with a given retry count.\<close>

definition example_report_row :: "nat \<Rightarrow> report_transmit_log" where
  "example_report_row n =
     \<lparr>rtl_id = 1, rtl_mq_receive_log_id = 1, rtl_type = DEVICE_INFO,
      outbound_id = ''KR.a_1700000000000'', external_system_name = ''ess1'',
      rtl_raw_message = \<lparr>rr_identifier = None, rr_json = ''{\"deviceList\":[]}''\<rparr>,
      rtl_status = PENDING, rtl_retry_count = n, error_detail = None, report_sequence = 1,
      rtl_updated_at = None\<rparr>"

definition example_report_state :: "nat \<Rightarrow> cs_state" where
  "example_report_state n =
     empty_cs_state\<lparr>db := empty_cs_db\<lparr>report_transmit_logs := [example_report_row n],
                                          rtl_seq := 1\<rparr>\<rparr>"

text \<open>
  Three contents of a report delivery: a device-info report of the system \<open>ess1\<close>,
  a result report of the same system for the alert \<open>A1\<close>, and a content that carries
  a type only.  \<open>example_JSON_parse\<close> is \<open>JSON.parse\<close> with the destructuring on
  these three contents; other contents do not occur below.
\<close>

definition example_device_info_content :: string where
  "example_device_info_content =
     ''{\"type\":\"DEVICE_INFO\",\"externalSystemName\":\"ess1\",'' @
     ''\"rawMessage\":{\"deviceList\":[]}}''"

definition example_result_content :: string where
  "example_result_content =
     ''{\"type\":\"DISASTER_RESULT\",\"externalSystemName\":\"ess1\",'' @
     ''\"rawMessage\":{\"identifier\":\"A1\"}}''"

definition example_type_only_content :: string where
  "example_type_only_content = ''{\"type\":\"DEVICE_INFO\"}''"

definition example_JSON_parse :: "string \<Rightarrow> report_payload option" where
  "example_JSON_parse s =
     (if s = example_device_info_content
      then Some \<lparr>rp_type = Some ''DEVICE_INFO'', rp_externalSystemName = Some ''ess1'',
                  rp_rawMessage = Some \<lparr>rr_identifier = None,
                                        rr_json = ''{\"deviceList\":[]}''\<rparr>\<rparr>
      else if s = example_result_content
      then Some \<lparr>rp_type = Some ''DISASTER_RESULT'', rp_externalSystemName = Some ''ess1'',
                  rp_rawMessage = Some \<lparr>rr_identifier = Some ''A1'',
                                        rr_json = ''{\"identifier\":\"A1\"}''\<rparr>\<rparr>
      else if s = example_type_only_content
      then Some \<lparr>rp_type = Some ''DEVICE_INFO'', rp_externalSystemName = None,
                  rp_rawMessage = None\<rparr>
      else None)"

definition example_report_delivery :: amqp_message where
  "example_report_delivery =
     \<lparr>content = example_device_info_content, x_retry_count = None,
      msg_routingKey = ''report.external'', deliveryTag = 1\<rparr>"

definition example_result_delivery :: amqp_message where
  "example_result_delivery =
     \<lparr>content = example_result_content, x_retry_count = None,
      msg_routingKey = ''report.external'', deliveryTag = 2\<rparr>"

text \<open>
  The central service after the alert \<open>A1\<close> was received and written to the outbox
  of the broker.
\<close>

definition example_published_state :: cs_state where
  "example_published_state =
     empty_cs_state\<lparr>db := empty_cs_db
       \<lparr>tcp_receive_logs :=
          [\<lparr>trl_id = 1, inbound_id = ''T1'', inbound_seq = 1,
            trl_raw_message = example_alert (Some ''cas@korea.kr'') ''HTW'',
            trl_status = SUCCESS, trl_error_message = None\<rparr>],
        disaster_publish_logs :=
          [\<lparr>dpl_id = 1, dpl_tcp_receive_log_id = 1, dpl_routing_key = ''disaster.HTW'',
            dpl_identifier = ''A1'', dpl_event_code = ''HTW'',
            dpl_raw_message = example_alert (Some ''cas@korea.kr'') ''HTW'',
            dpl_status = SUCCESS, dpl_retry_count = 0\<rparr>],
        trl_seq := 1, dpl_seq := 1\<rparr>\<rparr>"

text \<open>The update of the inbox row to \<open>SUCCESS\<close> throws; every other call succeeds.\<close>

definition update_success_fails :: "mq_call \<Rightarrow> js_error option" where
  "update_success_fails c =
     (if c = MqUpdateSuccess
      then Some \<lparr>err_name = ''error'', err_message = ''connection terminated''\<rparr>
      else None)"

text \<open>
  The external service with two subscribers; an alert \<open>A1\<close> was fanned out to
  subscriber 2 only, and its row has a given retry count.
\<close>

definition example_payload :: disaster_payload where
  "example_payload = \<lparr>dp_identifier = Some ''A1'', dp_eventCode = Some ''HTW'',
     dp_rawMessage = Some (example_alert (Some ''cas@korea.kr'') ''HTW'')\<rparr>"

definition example_es_db :: "nat \<Rightarrow> es_db" where
  "example_es_db n =
     \<lparr>external_systems =
        [\<lparr>es_id = 1, system_name = ''ess1'', api_key = ''k1'', subscribed_event_codes = [''EQW''],
          is_active = True\<rparr>,
         \<lparr>es_id = 2, system_name = ''ess2'', api_key = ''k2'', subscribed_event_codes = [''HTW''],
          is_active = True\<rparr>],
      disaster_transmit_logs =
        [\<lparr>dtl_id = 1, dtl_mq_receive_log_id = 1, external_system_id = 2, dtl_identifier = ''A1'',
          dtl_raw_message = example_payload, dtl_status = PENDING, dtl_retry_count = n,
          dtl_updated_at = None\<rparr>],
      es_mq_receive_logs =
        [\<lparr>mrl_id = 1, mrl_raw_message = ''{}'', mrl_status = SUCCESS, mrl_error_message = None\<rparr>],
      connection_logs = [], dtl_seq = 1, es_mrl_seq = 1\<rparr>"

definition example_socket :: socket where
  "example_socket = \<lparr>socket_id = ''s-old'', system = Some (2, ''ess2''),
     handshake_address = ''10.0.0.2''\<rparr>"

definition example_socket2 :: socket where
  "example_socket2 = \<lparr>socket_id = ''s-new'', system = Some (2, ''ess2''),
     handshake_address = ''10.0.0.3''\<rparr>"

definition example_socket3 :: socket where
  "example_socket3 = \<lparr>socket_id = ''s-newer'', system = Some (2, ''ess2''),
     handshake_address = ''10.0.0.4''\<rparr>"

definition example_es_state :: "nat \<Rightarrow> es_state" where
  "example_es_state n =
     \<lparr>es_database = example_es_db n, activeSockets = [2 \<mapsto> example_socket], sm_events = [],
      es_channel = [], emitted = [], es_timers = [], es_callbacks = []\<rparr>"

text \<open>The sequence number an outbound report frame carries.\<close>

definition frame_seq :: "frame \<Rightarrow> nat option" where
  "frame_seq f = (case frame_xml f of Report r \<Rightarrow> Some (rep_transMsgSeq r) | CnfDisInfo r \<Rightarrow> None)"

text \<open>
  A delivery of the alert \<open>A2\<close> with event code \<open>HTW\<close> to the external service, and
  \<open>JSON.parse\<close> on its content; other contents do not occur below.
\<close>

definition example_disaster_content :: string where
  "example_disaster_content = ''{\"identifier\":\"A2\",\"eventCode\":\"HTW\"}''"

definition example_disaster_parse :: "string \<Rightarrow> disaster_payload option" where
  "example_disaster_parse s =
     (if s = example_disaster_content
      then Some \<lparr>dp_identifier = Some ''A2'', dp_eventCode = Some ''HTW'', dp_rawMessage = None\<rparr>
      else None)"

definition example_disaster_delivery :: amqp_message where
  "example_disaster_delivery =
     \<lparr>content = example_disaster_content, x_retry_count = None,
      msg_routingKey = ''disaster.HTW'', deliveryTag = 1\<rparr>"

text \<open>The effects of the session manager on sockets and on the map, without the log rows.\<close>

fun socket_event :: "sm_event \<Rightarrow> bool" where
  "socket_event (LogWritten l) = False"
| "socket_event (Disconnected x) = True"
| "socket_event (MapDeleted k) = True"
| "socket_event (MapSet k x) = True"

text \<open>The natural keys of the two outboxes fed by the broker consumers.\<close>

definition dtl_key :: "disaster_transmit_log \<Rightarrow> nat \<times> string" where
  "dtl_key r = (external_system_id r, dtl_identifier r)"

definition rtl_key :: "report_transmit_log \<Rightarrow> string \<times> nat" where
  "rtl_key r = (outbound_id r, report_sequence r)"

section \<open>Properties of the framed wire protocol\<close>

lemma read_write_UInt32BE:
  assumes "v < 4294967296"
  shows "unat (word_of_nat (v div 16777216) :: byte) * 16777216
         + unat (word_of_nat (v div 65536) :: byte) * 65536
         + unat (word_of_nat (v div 256) :: byte) * 256 + unat (word_of_nat v :: byte) = (v::nat)"
proof -
  define a where "a = v div 256"
  define b where "b = a div 256"
  define c where "c = b div 256"
  have u: "\<And>x. unat (of_nat x :: byte) = x mod 256"
    by (simp add: unat_of_nat)
  have b_eq: "v div 65536 = b"
    unfolding b_def a_def by (simp add: div_mult2_eq [symmetric])
  have c_eq: "v div 16777216 = c"
    unfolding c_def b_def a_def by (simp add: div_mult2_eq [symmetric])
  have c_small: "c < 256"
    using assms unfolding c_eq [symmetric] by simp
  have e1: "v = 256 * a + v mod 256" unfolding a_def by simp
  have e2: "a = 256 * b + a mod 256" unfolding b_def by simp
  have e3: "b = 256 * c + b mod 256" unfolding c_def by simp
  have "c mod 256 * 16777216 + b mod 256 * 65536 + a mod 256 * 256 + v mod 256 = v"
    using e1 e2 e3 c_small by simp
  then show ?thesis
    unfolding u b_eq c_eq a_def [symmetric] .
qed

lemma header_fields:
  assumes "a < 2 ^ 32" "b < 2 ^ 32" "c < 2 ^ 32" "d < 2 ^ 32"
    and "writeUInt32BE a = Some f0" "writeUInt32BE b = Some f1"
        "writeUInt32BE c = Some f2" "writeUInt32BE d = Some f3"
  shows "readUint32BE (take HEADER_LENGTH (f0 @ f1 @ f2 @ f3 @ rest)) 0 = Some a"
    and "readUint32BE (take HEADER_LENGTH (f0 @ f1 @ f2 @ f3 @ rest)) 4 = Some b"
    and "readUint32BE (take HEADER_LENGTH (f0 @ f1 @ f2 @ f3 @ rest)) 8 = Some c"
    and "readUint32BE (take HEADER_LENGTH (f0 @ f1 @ f2 @ f3 @ rest)) 12 = Some d"
    and "drop HEADER_LENGTH (f0 @ f1 @ f2 @ f3 @ rest) = rest"
  using assms
  by (auto simp: writeUInt32BE_def readUint32BE_def HEADER_LENGTH_def read_write_UInt32BE
      split: if_splits)

lemma parseHeader_frame:
  assumes "mid < 2 ^ 32" "DATA_FORMAT cfg < 2 ^ 32" "MAGIC_NUMBER cfg < 2 ^ 32"
    and "length bdy \<le> MAX_BODY_LENGTH"
    and "writeUInt32BE mid = Some f0" "writeUInt32BE (DATA_FORMAT cfg) = Some f1"
        "writeUInt32BE (MAGIC_NUMBER cfg) = Some f2" "writeUInt32BE (length bdy) = Some f3"
  shows "parseHeader cfg (new_parser\<lparr>buffer := f0 @ f1 @ f2 @ f3 @ bdy\<rparr>) =
     (let h = \<lparr>messageId = mid, dataFormat = DATA_FORMAT cfg,
                magicNumber = MAGIC_NUMBER cfg, dataLength = length bdy\<rparr>
      in if bdy = [] then Some (new_parser, [\<lparr>header = h, body = []\<rparr>])
         else Some (\<lparr>buffer = bdy, neededLength = length bdy, parsingState = BODY,
                     cur_header = Some h\<rparr>, []))"
proof -
  have d: "length bdy < 2 ^ 32"
    using assms(4) by (simp add: MAX_BODY_LENGTH_def)
  define buf where "buf = f0 @ f1 @ f2 @ f3 @ bdy"
  note hf = header_fields [OF assms(1) assms(2) assms(3) d assms(5-8), of bdy,
      folded buf_def]
  have "parseHeader cfg (new_parser\<lparr>buffer := buf\<rparr>) =
     (let h = \<lparr>messageId = mid, dataFormat = DATA_FORMAT cfg,
                magicNumber = MAGIC_NUMBER cfg, dataLength = length bdy\<rparr>
      in if bdy = [] then Some (new_parser, [\<lparr>header = h, body = []\<rparr>])
         else Some (\<lparr>buffer = bdy, neededLength = length bdy, parsingState = BODY,
                     cur_header = Some h\<rparr>, []))"
    using assms(4)
    by (simp add: parseHeader_def Let_def hf new_parser_def emitCompleteMessage_def)
  then show ?thesis unfolding buf_def .
qed

text \<open>
  Claim C5.  For every message id, data format and magic number that fit in 32 bits and
  every body of at most \<open>MAX_BODY_LENGTH\<close> bytes, the framer returns a buffer, and
  a fresh parser fed that buffer emits exactly one message, whose header fields are the
  message id, the data format, the magic number and the body length, and whose body is
  the original body; the parser is back in its initial state.
\<close>

theorem framer_deframer_roundtrip:
  assumes "mid < 2 ^ 32" "DATA_FORMAT cfg < 2 ^ 32" "MAGIC_NUMBER cfg < 2 ^ 32"
    and "length bdy \<le> MAX_BODY_LENGTH"
  shows "\<exists>buf. buildMessageBuffer cfg mid bdy = Some buf \<and>
           transform cfg new_parser buf =
             (new_parser, [\<lparr>header = \<lparr>messageId = mid, dataFormat = DATA_FORMAT cfg,
                 magicNumber = MAGIC_NUMBER cfg, dataLength = length bdy\<rparr>, body = bdy\<rparr>])"
proof -
  have d: "length bdy < 2 ^ 32"
    using assms(4) by (simp add: MAX_BODY_LENGTH_def)
  obtain f0 f1 f2 f3 where w: "writeUInt32BE mid = Some f0"
      "writeUInt32BE (DATA_FORMAT cfg) = Some f1" "writeUInt32BE (MAGIC_NUMBER cfg) = Some f2"
      "writeUInt32BE (length bdy) = Some f3"
    using assms(1-3) d by (simp add: writeUInt32BE_def)
  have len: "length f0 = 4" "length f1 = 4" "length f2 = 4" "length f3 = 4"
    using w by (auto simp: writeUInt32BE_def split: if_splits)
  let ?buf = "f0 @ f1 @ f2 @ f3 @ bdy"
  let ?h = "\<lparr>messageId = mid, dataFormat = DATA_FORMAT cfg,
             magicNumber = MAGIC_NUMBER cfg, dataLength = length bdy\<rparr>"
  have b: "buildMessageBuffer cfg mid bdy = Some ?buf"
    by (simp add: buildMessageBuffer_def w)
  have ph: "parse_step cfg (new_parser\<lparr>buffer := ?buf\<rparr>) =
      (if bdy = [] then Some (new_parser, [\<lparr>header = ?h, body = []\<rparr>])
       else Some (\<lparr>buffer = bdy, neededLength = length bdy, parsingState = BODY,
                   cur_header = Some ?h\<rparr>, []))"
    using parseHeader_frame [OF assms w]
    by (simp add: parse_step_def new_parser_def Let_def)
  have stop: "\<And>out. transform_loop cfg new_parser out = (new_parser, out)"
    by (subst transform_loop.simps) (simp add: new_parser_def HEADER_LENGTH_def)
  have t: "transform cfg new_parser ?buf = (new_parser, [\<lparr>header = ?h, body = bdy\<rparr>])"
  proof (cases "bdy = []")
    case True
    have "transform_loop cfg (new_parser\<lparr>buffer := ?buf\<rparr>) [] =
            (new_parser, [\<lparr>header = ?h, body = bdy\<rparr>])"
      apply (subst transform_loop.simps)
      using True ph len
      by (simp add: stop) (simp add: new_parser_def HEADER_LENGTH_def)
    then show ?thesis by (simp add: transform_def new_parser_def)
  next
    case False
    let ?p1 = "\<lparr>buffer = bdy, neededLength = length bdy, parsingState = BODY,
                cur_header = Some ?h\<rparr>"
    have pb: "parse_step cfg ?p1 = Some (new_parser, [\<lparr>header = ?h, body = bdy\<rparr>])"
      by (simp add: parse_step_def parseBody_def emitCompleteMessage_def Let_def new_parser_def)
    have l1: "transform_loop cfg ?p1 [] = (new_parser, [\<lparr>header = ?h, body = bdy\<rparr>])"
      by (subst transform_loop.simps) (simp add: pb stop)
    have "transform_loop cfg (new_parser\<lparr>buffer := ?buf\<rparr>) [] =
            (new_parser, [\<lparr>header = ?h, body = bdy\<rparr>])"
      apply (subst transform_loop.simps)
      using False ph len
      by (simp add: l1) (simp add: new_parser_def HEADER_LENGTH_def)
    then show ?thesis by (simp add: transform_def new_parser_def)
  qed
  show ?thesis using b t by blast
qed

theorem framer_deframer_roundtrip_witness:
  "\<exists>buf. buildMessageBuffer \<lparr>DATA_FORMAT = 1, MAGIC_NUMBER = 305419896\<rparr> 4293804064
             [60, 97, 47, 62] = Some buf \<and>
         transform \<lparr>DATA_FORMAT = 1, MAGIC_NUMBER = 305419896\<rparr> new_parser buf =
           (new_parser, [\<lparr>header = \<lparr>messageId = 4293804064, dataFormat = 1,
               magicNumber = 305419896, dataLength = 4\<rparr>, body = [60, 97, 47, 62]\<rparr>])"
proof -
  have four: "length [60, 97, 47, 62 :: byte] = 4" by simp
  show ?thesis
    using framer_deframer_roundtrip [of 4293804064
        "\<lparr>DATA_FORMAT = 1, MAGIC_NUMBER = 305419896\<rparr>" "[60, 97, 47, 62]"]
    unfolding four by (simp add: MAX_BODY_LENGTH_def)
qed

section \<open>Properties of the typed NACK codes\<close>

lemma note_code_of_code [simp]:
  "CHR ''|'' \<notin> set code \<Longrightarrow> note_code_of (code @ CHR ''|'' # m) = code"
  by (induction code) (auto simp: note_code_of_def)

text \<open>
  Claim C10.  No error maps to result code 200, result \<open>OK\<close>, note 000.  An error
  named \<open>ValidationError\<close>, \<open>ProfileError\<close> or \<open>DuplicateMessageError\<close> maps to
  result code 400, result \<open>Bad Request\<close>, and note 210, 220, 300 respectively; every
  other error, \<open>ParsingError\<close> included, maps to result code 500, result
  \<open>Internal Server Error\<close>, note 810.  Every reply \<open>createCnfDisInfoBuffer\<close> builds
  is an \<open>ETS_CNF_DIS_INFO\<close> frame whose \<open>resultCode\<close> and \<open>result\<close> elements are
  the result code and the result text of this mapping; when it is given a CAP, the note
  of the frame starts with the note code of this mapping, and otherwise the frame has
  no CAP and no note.
\<close>

theorem nack_result_codes:
  "mapErrorToResponseCode None =
     \<lparr>resultCode = ''200'', resultText = ''OK'', noteCode = ''000'', noteMessage = note_ok\<rparr>
   \<and> (err_name e \<in> {''ValidationError'', ''ProfileError'', ''DuplicateMessageError''} \<longrightarrow>
        resultCode (mapErrorToResponseCode (Some e)) = ''400''
        \<and> resultText (mapErrorToResponseCode (Some e)) = ''Bad Request''
        \<and> noteCode (mapErrorToResponseCode (Some e)) =
            (if err_name e = ''ValidationError'' then ''210''
             else if err_name e = ''ProfileError'' then ''220'' else ''300''))
   \<and> (err_name e \<notin> {''ValidationError'', ''ProfileError'', ''DuplicateMessageError''} \<longrightarrow>
        resultCode (mapErrorToResponseCode (Some e)) = ''500''
        \<and> resultText (mapErrorToResponseCode (Some e)) = ''Internal Server Error''
        \<and> noteCode (mapErrorToResponseCode (Some e)) = ''810'')
   \<and> (createCnfDisInfoBuffer cfg now rd ci err = Some f \<longrightarrow>
        reply_codes f =
          (ETS_CNF_DIS_INFO, resultCode (mapErrorToResponseCode err),
           resultText (mapErrorToResponseCode err),
           map_option (\<lambda>c. noteCode (mapErrorToResponseCode err)) ci))
   \<and> (createCnfDisInfoBuffer cfg now rd ci (Some e) = Some f \<longrightarrow>
        (err_name e \<in> {''ValidationError'', ''ProfileError'', ''DuplicateMessageError''} \<longrightarrow>
           fst (snd (reply_codes f)) = ''400''
           \<and> fst (snd (snd (reply_codes f))) = ''Bad Request'')
        \<and> (err_name e \<notin> {''ValidationError'', ''ProfileError'', ''DuplicateMessageError''} \<longrightarrow>
           fst (snd (reply_codes f)) = ''500''
           \<and> fst (snd (snd (reply_codes f))) = ''Internal Server Error''))"
proof -
  have nc: "\<And>err. CHR ''|'' \<notin> set (noteCode (mapErrorToResponseCode err))"
    by (simp add: mapErrorToResponseCode_def split: option.splits)
  have fr: "\<And>err f. createCnfDisInfoBuffer cfg now rd ci err = Some f \<Longrightarrow>
        reply_codes f =
          (ETS_CNF_DIS_INFO, resultCode (mapErrorToResponseCode err),
           resultText (mapErrorToResponseCode err),
           map_option (\<lambda>c. noteCode (mapErrorToResponseCode err)) ci)"
    using nc
    by (auto simp: createCnfDisInfoBuffer_def reply_codes_def createAckCap_def Let_def
          split: option.splits if_splits sum.splits)
  have m4: "err_name e \<in> {''ValidationError'', ''ProfileError'', ''DuplicateMessageError''} \<Longrightarrow>
        resultCode (mapErrorToResponseCode (Some e)) = ''400''
        \<and> resultText (mapErrorToResponseCode (Some e)) = ''Bad Request''"
    by (auto simp: mapErrorToResponseCode_def)
  have m5: "err_name e \<notin> {''ValidationError'', ''ProfileError'', ''DuplicateMessageError''} \<Longrightarrow>
        resultCode (mapErrorToResponseCode (Some e)) = ''500''
        \<and> resultText (mapErrorToResponseCode (Some e)) = ''Internal Server Error''"
    by (simp add: mapErrorToResponseCode_def)
  have last: "createCnfDisInfoBuffer cfg now rd ci (Some e) = Some f \<Longrightarrow>
        (err_name e \<in> {''ValidationError'', ''ProfileError'', ''DuplicateMessageError''} \<longrightarrow>
           fst (snd (reply_codes f)) = ''400''
           \<and> fst (snd (snd (reply_codes f))) = ''Bad Request'')
        \<and> (err_name e \<notin> {''ValidationError'', ''ProfileError'', ''DuplicateMessageError''} \<longrightarrow>
           fst (snd (reply_codes f)) = ''500''
           \<and> fst (snd (snd (reply_codes f))) = ''Internal Server Error'')"
    using fr [of "Some e" f] m4 m5 by simp
  show ?thesis
    using fr [of err f] last by (simp add: mapErrorToResponseCode_def)
qed

theorem nack_result_codes_witness:
  "noteCode (mapErrorToResponseCode (Some (ProfileError ''x''))) = ''220''
   \<and> resultCode (mapErrorToResponseCode (Some (ProfileError ''x''))) = ''400''
   \<and> noteCode (mapErrorToResponseCode (Some (Error ''db''))) = ''810''
   \<and> resultCode (mapErrorToResponseCode (Some (Error ''db''))) = ''500''
   \<and> map_option reply_codes
        (createCnfDisInfoBuffer example_config ''t'' (Some (example_alert (Some ''s'') ''XYZ''))
           (capInfo (example_alert (Some ''s'') ''XYZ'')) (Some (ProfileError ''x''))) =
       Some (ETS_CNF_DIS_INFO, ''400'', ''Bad Request'', Some ''220'')
   \<and> map_option reply_codes
        (createCnfDisInfoBuffer example_config ''t'' (Some (example_alert (Some ''s'') ''XYZ''))
           None (Some (Error ''db''))) =
       Some (ETS_CNF_DIS_INFO, ''500'', ''Internal Server Error'', None)"
proof -
  obtain f where f: "createCnfDisInfoBuffer example_config ''t''
        (Some (example_alert (Some ''s'') ''XYZ''))
        (capInfo (example_alert (Some ''s'') ''XYZ'')) (Some (ProfileError ''x'')) = Some f"
    by (simp add: createCnfDisInfoBuffer_def createAckCap_def example_alert_def falsy_def
          Let_def)
  obtain g where g: "createCnfDisInfoBuffer example_config ''t''
        (Some (example_alert (Some ''s'') ''XYZ'')) None (Some (Error ''db'')) = Some g"
    by (simp add: createCnfDisInfoBuffer_def example_alert_def falsy_def Let_def)
  show ?thesis
    using nack_result_codes [of "ProfileError ''x''" example_config "''t''"
        "Some (example_alert (Some ''s'') ''XYZ'')" "capInfo (example_alert (Some ''s'') ''XYZ'')"
        "Some (ProfileError ''x'')" f]
      nack_result_codes [of "Error ''db''" example_config "''t''"
        "Some (example_alert (Some ''s'') ''XYZ'')" None "Some (Error ''db'')" g] f g
    by (simp add: ProfileError_def Error_def example_alert_def)
qed

section \<open>Properties of the identifier validator\<close>

text \<open>
  Claim C7, as stated, fails: in \<open>example_es_db\<close> the alert \<open>A1\<close> has a row for
  subscriber 2 only, and the validator accepts the identifier whoever submits it, also
  subscriber 1, for whom no row exists.
\<close>

theorem validator_ignores_subscriber_counterexample:
  "isExistingIdentifier None ''A1'' (example_es_db 0) = Inr True
   \<and> \<not> spec_existsForSubscriber 1 ''A1'' (example_es_db 0)"
  by (simp add: isExistingIdentifier_def existsByIdentifier_def spec_existsForSubscriber_def
        example_es_db_def)

text \<open>
  Claim C7, amended.  When the query succeeds, \<open>isExistingIdentifier\<close> accepts the
  report exactly when the identifier occurs in some row of \<open>disaster_transmit_logs\<close>,
  of any subscriber, and rejects it with an error otherwise.
\<close>

theorem validator_accepts_iff_identifier_known:
  "isExistingIdentifier None ident d =
     (if ident \<in> set (map dtl_identifier (disaster_transmit_logs d)) then Inr True
      else Inl (Error (msg_unknown_identifier ident)))"
  by (simp add: isExistingIdentifier_def existsByIdentifier_def)

section \<open>Properties of the broker inbox\<close>

lemma inbox_apply_write [simp]:
  "map mrl_raw_message (mq_receive_logs (apply_write w d)) = map mrl_raw_message (mq_receive_logs d)"
  by (cases w) (simp_all add: comp_def if_distrib cong: if_cong)

lemma inbox_client_view [simp]:
  "map mrl_raw_message (mq_receive_logs (foldl (\<lambda>d w. apply_write w d) d ws)) =
   map mrl_raw_message (mq_receive_logs d)"
  by (induction ws arbitrary: d) simp_all

lemma inbox_client_query [simp]:
  "map mrl_raw_message (mq_receive_logs (snd (client_query c w d))) =
   map mrl_raw_message (mq_receive_logs d)"
  by (simp add: client_query_def)

lemma inbox_rtl_create [simp]:
  "mq_receive_logs (snd (rtl_create i ty ob nm raw d)) = mq_receive_logs d"
  by (simp add: rtl_create_def Let_def split: option.splits)

lemma inbox_report_tx:
  "report_tx cfg now flt parse str i d0 = Inr d \<Longrightarrow>
     map mrl_raw_message (mq_receive_logs d) = map mrl_raw_message (mq_receive_logs d0)"
  "report_tx cfg now flt parse str i d0 = Inl (e, c, d) \<Longrightarrow>
     map mrl_raw_message (mq_receive_logs d) = map mrl_raw_message (mq_receive_logs d0)"
  by (auto simp: report_tx_def Let_def client_commit_def client_view_def client_query_def
        client_begin_def new_client_def split: option.splits if_splits)

lemma inbox_report_retry [simp]:
  "map mrl_raw_message (mq_receive_logs (db (report_retry flt msg err i s))) =
   map mrl_raw_message (mq_receive_logs (db s))"
  by (simp add: report_retry_def Let_def split: option.splits)

lemma inbox_consumeReportMessage:
  assumes "flt MqCreate = None"
  shows "map mrl_raw_message (mq_receive_logs (db (consumeReportMessage cfg now flt parse msg s))) =
         map mrl_raw_message (mq_receive_logs (db s)) @ [content msg]"
proof -
  have base: "map mrl_raw_message (mq_receive_logs (snd (mq_create (content msg) (db s)))) =
              map mrl_raw_message (mq_receive_logs (db s)) @ [content msg]"
    by (simp add: mq_create_def Let_def)
  show ?thesis
    using assms base
    by (auto simp: consumeReportMessage_def Let_def
          dest: inbox_report_tx split: option.splits sum.splits prod.splits)
qed

lemma inbox_es_apply_write [simp]:
  "map mrl_raw_message (es_mq_receive_logs (es_apply_write w d)) =
   map mrl_raw_message (es_mq_receive_logs d)"
  by (cases w) (simp_all add: comp_def if_distrib cong: if_cong)

lemma inbox_es_commit [simp]:
  "map mrl_raw_message (es_mq_receive_logs (foldl (\<lambda>x w. es_apply_write w x) d ws)) =
   map mrl_raw_message (es_mq_receive_logs d)"
  by (induction ws arbitrary: d) simp_all

lemma inbox_es_client_query [simp]:
  "map mrl_raw_message (es_mq_receive_logs (snd (es_client_query c w d))) =
   map mrl_raw_message (es_mq_receive_logs d)"
  by (simp add: es_client_query_def)

lemma inbox_disaster_tx:
  "disaster_tx flt parse str i d0 = Inr d \<Longrightarrow>
     map mrl_raw_message (es_mq_receive_logs d) = map mrl_raw_message (es_mq_receive_logs d0)"
  "disaster_tx flt parse str i d0 = Inl (e, d) \<Longrightarrow>
     map mrl_raw_message (es_mq_receive_logs d) = map mrl_raw_message (es_mq_receive_logs d0)"
  by (auto simp: disaster_tx_def Let_def es_client_commit_def es_client_query_def
        split: option.splits if_splits)

lemma inbox_disaster_retry [simp]:
  "map mrl_raw_message (es_mq_receive_logs (es_database (disaster_retry flt msg err i s))) =
   map mrl_raw_message (es_mq_receive_logs (es_database s))"
  by (simp add: disaster_retry_def Let_def split: option.splits)

lemma inbox_consumeDisasterMessage:
  assumes "flt MqCreate = None"
  shows "map mrl_raw_message
           (es_mq_receive_logs (es_database (consumeDisasterMessage flt parse msg s))) =
         map mrl_raw_message (es_mq_receive_logs (es_database s)) @ [content msg]"
proof -
  have base: "map mrl_raw_message (es_mq_receive_logs (snd (es_mq_create (content msg) (es_database s)))) =
              map mrl_raw_message (es_mq_receive_logs (es_database s)) @ [content msg]"
    by (simp add: es_mq_create_def Let_def)
  show ?thesis
    using assms base
    by (auto simp: consumeDisasterMessage_def Let_def
          dest: inbox_disaster_tx split: option.splits sum.splits prod.splits)
qed

lemma inbox_consumeReportMessages:
  "flt MqCreate = None \<Longrightarrow>
   map mrl_raw_message (mq_receive_logs (db (consumeReportMessages cfg now flt parse ms s))) =
   map mrl_raw_message (mq_receive_logs (db s)) @ map content ms"
  by (induction ms arbitrary: s) (simp_all add: inbox_consumeReportMessage)

lemma inbox_consumeDisasterMessages:
  "flt MqCreate = None \<Longrightarrow>
   map mrl_raw_message
     (es_mq_receive_logs (es_database (consumeDisasterMessages flt parse ms s))) =
   map mrl_raw_message (es_mq_receive_logs (es_database s)) @ map content ms"
  by (induction ms arbitrary: s) (simp_all add: inbox_consumeDisasterMessage)

lemma dtl_key_fun: "dtl_key = (\<lambda>x. (external_system_id x, dtl_identifier x))"
  by (simp add: dtl_key_def fun_eq_iff)

lemma dtl_insert_all_distinct:
  "distinct (map dtl_key tbl) \<Longrightarrow> distinct (map dtl_key (dtl_insert_all rs tbl))"
  unfolding dtl_key_fun
  by (induction rs arbitrary: tbl) auto

lemma es_apply_write_distinct:
  "distinct (map dtl_key (disaster_transmit_logs d)) \<Longrightarrow>
   distinct (map dtl_key (disaster_transmit_logs (es_apply_write w d)))"
  by (cases w) (simp_all add: dtl_insert_all_distinct)

lemma es_client_commit_distinct:
  "distinct (map dtl_key (disaster_transmit_logs d)) \<Longrightarrow>
   distinct (map dtl_key (disaster_transmit_logs (es_client_commit c d)))"
proof -
  have "\<And>d. distinct (map dtl_key (disaster_transmit_logs d)) \<Longrightarrow>
    distinct (map dtl_key (disaster_transmit_logs (foldl (\<lambda>x w. es_apply_write w x) d ws)))"
    for ws
    by (induction ws) (simp_all add: es_apply_write_distinct)
  then show "distinct (map dtl_key (disaster_transmit_logs d)) \<Longrightarrow>
   distinct (map dtl_key (disaster_transmit_logs (es_client_commit c d)))"
    by (simp add: es_client_commit_def)
qed

lemma es_client_query_in_tx:
  "es_in_tx c \<Longrightarrow> snd (es_client_query c w d) = d"
  "es_in_tx c \<Longrightarrow> es_in_tx (fst (es_client_query c w d))"
  by (simp_all add: es_client_query_def)

lemma disaster_tx_distinct:
  assumes "distinct (map dtl_key (disaster_transmit_logs d0))"
  shows "disaster_tx flt parse str i d0 = Inr d \<Longrightarrow>
           distinct (map dtl_key (disaster_transmit_logs d))"
    and "disaster_tx flt parse str i d0 = Inl (e, d) \<Longrightarrow>
           distinct (map dtl_key (disaster_transmit_logs d))"
proof -
  have c: "\<And>c d1. disaster_transmit_logs d1 = disaster_transmit_logs d0 \<Longrightarrow>
      distinct (map dtl_key (disaster_transmit_logs (es_client_commit c d1)))"
    using assms by (simp add: es_client_commit_distinct)
  show "disaster_tx flt parse str i d0 = Inr d \<Longrightarrow>
           distinct (map dtl_key (disaster_transmit_logs d))"
    using c
    by (auto simp: disaster_tx_def Let_def es_client_query_in_tx
          split: option.splits if_splits)
  show "disaster_tx flt parse str i d0 = Inl (e, d) \<Longrightarrow>
           distinct (map dtl_key (disaster_transmit_logs d))"
    using assms
    by (auto simp: disaster_tx_def Let_def es_client_query_in_tx
          split: option.splits if_splits)
qed

lemma disaster_retry_outbox [simp]:
  "disaster_transmit_logs (es_database (disaster_retry flt msg err i s)) =
   disaster_transmit_logs (es_database s)"
  by (simp add: disaster_retry_def Let_def split: option.splits)

lemma es_mq_create_outbox [simp]:
  "disaster_transmit_logs (snd (es_mq_create c d)) = disaster_transmit_logs d"
  by (simp add: es_mq_create_def Let_def)

lemma consumeDisasterMessage_distinct:
  assumes "distinct (map dtl_key (disaster_transmit_logs (es_database s)))"
  shows "distinct (map dtl_key
           (disaster_transmit_logs (es_database (consumeDisasterMessage flt parse msg s))))"
  using assms
  by (auto simp: consumeDisasterMessage_def Let_def
        dest: disaster_tx_distinct [rotated] split: option.splits sum.splits prod.splits)

lemma consumeDisasterMessages_distinct:
  "distinct (map dtl_key (disaster_transmit_logs (es_database s))) \<Longrightarrow>
   distinct (map dtl_key
     (disaster_transmit_logs (es_database (consumeDisasterMessages flt parse ms s))))"
  by (induction ms arbitrary: s) (simp_all add: consumeDisasterMessage_distinct)

lemma rtl_create_appends:
  "fst (rtl_create i ty ob nm raw d) = None \<Longrightarrow>
   map rtl_key (report_transmit_logs (snd (rtl_create i ty ob nm raw d))) =
   map rtl_key (report_transmit_logs d) @ [(ob, 1)]"
  by (auto simp: rtl_create_def rtl_key_def Let_def split: option.splits)

text \<open>
  Claim C9 as stated fails in its last part: the outbox of the central service is not
  deduplicated.  The alert \<open>A1\<close> was published; the result report of a system for
  \<open>A1\<close> is delivered, processed and acknowledged, and the same report is delivered
  once more.  Both deliveries end with their inbox row \<open>SUCCESS\<close>, and
  \<open>report_transmit_logs\<close> holds two rows with the natural key
  (\<open>A1_RPT_1\<close>, sequence 1).
\<close>

theorem report_outbox_not_deduplicated_counterexample:
  "map rtl_key (report_transmit_logs (db (consumeReportMessages example_config 5 no_fault
       example_JSON_parse [example_result_delivery, example_result_delivery\<lparr>deliveryTag := 3\<rparr>]
       example_published_state))) =
     [(''A1_RPT_1'', 1), (''A1_RPT_1'', 1)]
   \<and> map mrl_status (mq_receive_logs (db (consumeReportMessages example_config 5 no_fault
       example_JSON_parse [example_result_delivery, example_result_delivery\<lparr>deliveryTag := 3\<rparr>]
       example_published_state))) =
     [SUCCESS, SUCCESS]
   \<and> channel (consumeReportMessages example_config 5 no_fault
       example_JSON_parse [example_result_delivery, example_result_delivery\<lparr>deliveryTag := 3\<rparr>]
       example_published_state) = [Ack 2, Ack 3]"
  by (simp add: consumeReportMessage_def report_tx_def rtl_create_def mq_create_def
        dpl_existsByIdentifier_def report_type_of_def rtl_key_def js_string_def
        client_query_def client_begin_def client_commit_def client_view_def new_client_def
        no_fault_def example_JSON_parse_def example_result_delivery_def
        example_result_content_def example_device_info_content_def
        example_published_state_def empty_cs_state_def empty_cs_db_def Let_def)

text \<open>
  Claim C9, amended.  When the insert into \<open>mq_receive_logs\<close> succeeds, every delivery
  handled by the consumer of either service adds one row with the content of the
  delivery to the inbox, whatever the retry count of the delivery and whatever happens
  in the rest of the handler; earlier rows keep their raw message.  So a list of
  deliveries adds one row per delivery, in order, also when the deliveries carry the
  same content.  Of the two outboxes behind the consumers only
  \<open>disaster_transmit_logs\<close> of the external service is deduplicated: its natural key
  (\<open>external_system_id\<close>, \<open>identifier\<close>) stays free of duplicates whatever is
  delivered.  An accepted insert into \<open>report_transmit_logs\<close> of the central service
  adds a row whatever rows the table holds.
\<close>

theorem inbox_row_per_delivery:
  assumes "flt MqCreate = None"
  shows "map mrl_raw_message (mq_receive_logs (db (consumeReportMessages cfg now flt parse ms s))) =
           map mrl_raw_message (mq_receive_logs (db s)) @ map content ms
       \<and> map mrl_raw_message
           (es_mq_receive_logs (es_database (consumeDisasterMessages flt parse' ms' es))) =
           map mrl_raw_message (es_mq_receive_logs (es_database es)) @ map content ms'
       \<and> (distinct (map dtl_key (disaster_transmit_logs (es_database es))) \<longrightarrow>
           distinct (map dtl_key (disaster_transmit_logs
             (es_database (consumeDisasterMessages flt parse' ms' es)))))
       \<and> (fst (rtl_create i ty ob nm raw d) = None \<longrightarrow>
           map rtl_key (report_transmit_logs (snd (rtl_create i ty ob nm raw d))) =
           map rtl_key (report_transmit_logs d) @ [(ob, 1)])"
  using assms
  by (simp add: inbox_consumeReportMessages inbox_consumeDisasterMessages
        consumeDisasterMessages_distinct rtl_create_appends)

theorem inbox_row_per_delivery_witness:
  "map mrl_raw_message (mq_receive_logs (db (consumeReportMessages example_config 5 no_fault
       example_JSON_parse
       [example_report_delivery, example_report_delivery\<lparr>x_retry_count := Some 1, deliveryTag := 2\<rparr>]
       empty_cs_state))) =
     [example_device_info_content, example_device_info_content]
   \<and> map mrl_raw_message (es_mq_receive_logs (es_database (consumeDisasterMessages no_fault
       example_disaster_parse
       [example_disaster_delivery, example_disaster_delivery\<lparr>x_retry_count := Some 1, deliveryTag := 2\<rparr>]
       (example_es_state 0)))) =
     [''{}'', example_disaster_content, example_disaster_content]
   \<and> distinct (map dtl_key (disaster_transmit_logs (es_database (consumeDisasterMessages
       no_fault example_disaster_parse
       [example_disaster_delivery, example_disaster_delivery\<lparr>x_retry_count := Some 1, deliveryTag := 2\<rparr>]
       (example_es_state 0)))))
   \<and> map dtl_key (disaster_transmit_logs (es_database (consumeDisasterMessages
       no_fault example_disaster_parse
       [example_disaster_delivery, example_disaster_delivery\<lparr>x_retry_count := Some 1, deliveryTag := 2\<rparr>]
       (example_es_state 0)))) = [(2, ''A1''), (2, ''A2'')]
   \<and> map rtl_key (report_transmit_logs (snd (rtl_create 2 (Some ''DEVICE_INFO'')
       ''KR.a_1700000000000'' (Some ''ess1'')
       (Some \<lparr>rr_identifier = None, rr_json = ''{\"deviceList\":[]}''\<rparr>)
       (db (example_report_state 0))))) =
     [(''KR.a_1700000000000'', 1), (''KR.a_1700000000000'', 1)]"
proof -
  have keys: "map dtl_key (disaster_transmit_logs (es_database (consumeDisasterMessages
       no_fault example_disaster_parse
       [example_disaster_delivery, example_disaster_delivery\<lparr>x_retry_count := Some 1, deliveryTag := 2\<rparr>]
       (example_es_state 0)))) = [(2, ''A1''), (2, ''A2'')]"
    by (simp add: consumeDisasterMessage_def disaster_tx_def es_mq_create_def
          findBySubscribedEventCode_def es_client_query_def es_client_commit_def
          js_string_def dtl_key_def no_fault_def example_disaster_parse_def
          example_disaster_delivery_def example_es_state_def example_es_db_def Let_def)
  show ?thesis
    using inbox_row_per_delivery [where flt = no_fault and cfg = example_config and now = 5
        and parse = example_JSON_parse
        and ms = "[example_report_delivery, example_report_delivery\<lparr>x_retry_count := Some 1, deliveryTag := 2\<rparr>]"
        and s = empty_cs_state and parse' = example_disaster_parse and es = "example_es_state 0"
        and ms' = "[example_disaster_delivery, example_disaster_delivery\<lparr>x_retry_count := Some 1, deliveryTag := 2\<rparr>]"
        and i = 2 and ty = "Some ''DEVICE_INFO''" and ob = "''KR.a_1700000000000''"
        and nm = "Some ''ess1''"
        and raw = "Some \<lparr>rr_identifier = None, rr_json = ''{\"deviceList\":[]}''\<rparr>"
        and d = "db (example_report_state 0)"] keys
    by (simp add: no_fault_def empty_cs_state_def empty_cs_db_def example_es_state_def
          example_es_db_def example_report_delivery_def example_disaster_delivery_def
          dtl_key_def rtl_key_def rtl_create_def report_type_of_def example_report_state_def
          example_report_row_def Let_def)
qed
section \<open>Properties of the WebSocket session manager\<close>

text \<open>
  A call of \<open>addSocket\<close> or \<open>removeSocket\<close> during which no other handler runs.
  When a socket is registered for an id that already has one and the connection logs
  can be written, the effects are, in this order: a \<open>SOCKET_DISCONNECTED\<close> row for the
  old socket, the forced close of the old socket, the removal of the id from the map,
  the storing of the new socket under the id, and a \<open>SOCKET_CONNECTED\<close> row; afterwards
  the id maps to the new socket and every other id maps to what it did.  On disconnect
  the entry of the socket's id is removed exactly when the id is not 0 and the socket
  mapped under it is the socket that disconnected; otherwise the map is unchanged.
\<close>

lemma session_manager_alone:
  "(system new = Some (sid, nm) \<and> activeSockets s sid = Some old
      \<and> flt LogOldDisconnected = None \<and> flt LogConnected = None \<longrightarrow>
      fst (addSocket flt new s) = None
      \<and> activeSockets (snd (addSocket flt new s)) = (activeSockets s)(sid \<mapsto> new)
      \<and> sm_events (snd (addSocket flt new s)) = sm_events s @
           [LogWritten \<lparr>cl_externalSystemId = sid, cl_eventType = ''SOCKET_DISCONNECTED'',
                        cl_ipAddress = handshake_address old,
                        cl_detail = detail_replaced (socket_id old) (socket_id new)\<rparr>,
            Disconnected old, MapDeleted sid, MapSet sid new,
            LogWritten \<lparr>cl_externalSystemId = sid, cl_eventType = ''SOCKET_CONNECTED'',
                        cl_ipAddress = handshake_address new,
                        cl_detail = detail_connected (socket_id new)\<rparr>])
   \<and> activeSockets (snd (removeSocket flt' sock reason s)) =
       (case system sock of
          None \<Rightarrow> activeSockets s
        | Some (i, n) \<Rightarrow>
            if i \<noteq> 0 \<and> activeSockets s i = Some sock then (activeSockets s)(i := None)
            else activeSockets s)"
proof -
  have a: "system new = Some (sid, nm) \<Longrightarrow> activeSockets s sid = Some old \<Longrightarrow>
      flt LogOldDisconnected = None \<Longrightarrow> flt LogConnected = None \<Longrightarrow>
      addSocket flt new s =
        (None, s\<lparr>activeSockets := (activeSockets s)(sid \<mapsto> new),
                 es_database := (es_database s)\<lparr>connection_logs := connection_logs (es_database s) @
                   [\<lparr>cl_externalSystemId = sid, cl_eventType = ''SOCKET_DISCONNECTED'',
                     cl_ipAddress = handshake_address old,
                     cl_detail = detail_replaced (socket_id old) (socket_id new)\<rparr>,
                    \<lparr>cl_externalSystemId = sid, cl_eventType = ''SOCKET_CONNECTED'',
                     cl_ipAddress = handshake_address new,
                     cl_detail = detail_connected (socket_id new)\<rparr>]\<rparr>,
                 sm_events := sm_events s @
                   [LogWritten \<lparr>cl_externalSystemId = sid, cl_eventType = ''SOCKET_DISCONNECTED'',
                        cl_ipAddress = handshake_address old,
                        cl_detail = detail_replaced (socket_id old) (socket_id new)\<rparr>,
                    Disconnected old, MapDeleted sid, MapSet sid new,
                    LogWritten \<lparr>cl_externalSystemId = sid, cl_eventType = ''SOCKET_CONNECTED'',
                        cl_ipAddress = handshake_address new,
                        cl_detail = detail_connected (socket_id new)\<rparr>]\<rparr>)"
    by (simp add: addSocket_def addSocket_begin_def addSocket_resume_def connectionLog_create_def
          Let_def)
  have b: "activeSockets (snd (removeSocket flt' sock reason s)) =
       (case system sock of
          None \<Rightarrow> activeSockets s
        | Some (i, n) \<Rightarrow>
            if i \<noteq> 0 \<and> activeSockets s i = Some sock then (activeSockets s)(i := None)
            else activeSockets s)"
    by (auto simp: removeSocket_def connectionLog_create_def Let_def split: option.splits)
  show ?thesis
    using a b by simp
qed


text \<open>
  Claim C6 fails on the code when two registrations overlap.  Subscriber 2 has the
  socket \<open>s-old\<close>.  The sockets \<open>s-new\<close> and \<open>s-newer\<close> of subscriber 2 connect;
  each call of \<open>addSocket\<close> reads \<open>s-old\<close> as the existing socket and waits for its
  log row.  The first call resumes: it closes \<open>s-old\<close> and stores \<open>s-new\<close>.  The
  second call resumes: it closes \<open>s-old\<close> again, deletes the key, which now holds
  \<open>s-new\<close>, and stores \<open>s-newer\<close>.  The socket \<open>s-new\<close> was installed and is never
  closed: subscriber 2 has two open sockets, one of them outside the map, and the
  disconnect of \<open>s-new\<close> later changes nothing.
\<close>

theorem overlapping_registrations_orphan_socket:
  "addSocket_begin example_socket2 (example_es_state 0) = Inr (Some example_socket)
   \<and> addSocket_begin example_socket3 (example_es_state 0) = Inr (Some example_socket)
   \<and> filter socket_event (sm_events
         (snd (addSocket_resume no_fault example_socket3 (Some example_socket)
          (snd (addSocket_resume no_fault example_socket2 (Some example_socket)
             (example_es_state 0)))))) =
       [Disconnected example_socket, MapDeleted 2, MapSet 2 example_socket2,
        Disconnected example_socket, MapDeleted 2, MapSet 2 example_socket3]
   \<and> activeSockets
         (snd (addSocket_resume no_fault example_socket3 (Some example_socket)
          (snd (addSocket_resume no_fault example_socket2 (Some example_socket)
             (example_es_state 0))))) 2 =
       Some example_socket3
   \<and> activeSockets (snd (removeSocket no_fault example_socket2 ''transport close''
         (snd (addSocket_resume no_fault example_socket3 (Some example_socket)
          (snd (addSocket_resume no_fault example_socket2 (Some example_socket)
             (example_es_state 0))))))) 2 =
       Some example_socket3"
  by (simp add: addSocket_begin_def addSocket_resume_def removeSocket_def
        connectionLog_create_def no_fault_def example_es_state_def example_socket_def
        example_socket2_def example_socket3_def Let_def)

section \<open>Properties of the consumer transactions\<close>

lemma dtl_es_mq_update [simp]:
  "disaster_transmit_logs (es_apply_write (EsMqUpdateStatus i st e) d) = disaster_transmit_logs d"
  by simp

lemma disaster_tx_failure_keeps_outbox:
  "disaster_tx flt parse str i d0 = Inl (e, d) \<Longrightarrow>
     disaster_transmit_logs d = disaster_transmit_logs d0
     \<and> es_mq_receive_logs d = es_mq_receive_logs d0"
  by (auto simp: disaster_tx_def Let_def es_client_query_def split: option.splits if_splits)

lemma disaster_retry_last_status:
  "es_mq_receive_logs (es_database s) = rows @ [r] \<Longrightarrow> mrl_status r = PENDING \<Longrightarrow>
   mrl_status (last (es_mq_receive_logs (es_database (disaster_retry flt msg err i s)))) \<noteq> SUCCESS"
  by (auto simp: disaster_retry_def Let_def split: option.splits)

text \<open>
  The consumer of the external service is atomic: when the processing of a delivery
  fails after the inbox row was written, no row of \<open>disaster_transmit_logs\<close> persists and
  the inbox row of the delivery is not \<open>SUCCESS\<close>.
\<close>

lemma disaster_consumer_atomic:
  assumes "flt MqCreate = None" "flt MqGetClient = None"
    and "disaster_tx flt parse (content msg) (fst (es_mq_create (content msg) (es_database s)))
           (snd (es_mq_create (content msg) (es_database s))) = Inl (e, d)"
  shows "disaster_transmit_logs (es_database (consumeDisasterMessage flt parse msg s)) =
           disaster_transmit_logs (es_database s)
       \<and> mrl_status (last (es_mq_receive_logs
            (es_database (consumeDisasterMessage flt parse msg s)))) \<noteq> SUCCESS"
proof -
  let ?q = "es_mq_create (content msg) (es_database s)"
  have d: "disaster_transmit_logs d = disaster_transmit_logs (snd ?q)"
      "es_mq_receive_logs d = es_mq_receive_logs (snd ?q)"
    using disaster_tx_failure_keeps_outbox [OF assms(3)] by simp_all
  have q: "disaster_transmit_logs (snd ?q) = disaster_transmit_logs (es_database s)"
      "es_mq_receive_logs (snd ?q) = es_mq_receive_logs (es_database s) @
         [\<lparr>mrl_id = fst ?q, mrl_raw_message = content msg, mrl_status = PENDING,
           mrl_error_message = None\<rparr>]"
    by (simp_all add: es_mq_create_def Let_def)
  have c: "consumeDisasterMessage flt parse msg s =
      disaster_retry flt msg (case flt MqRollback of Some r \<Rightarrow> r | None \<Rightarrow> e)
        (Some (fst ?q)) (s\<lparr>es_database := d\<rparr>)"
    using assms by (simp add: consumeDisasterMessage_def Let_def)
  show ?thesis
    unfolding c using d q
    by (simp add: disaster_retry_last_status [where rows = "es_mq_receive_logs (es_database s)"])
qed

text \<open>
  Claim C2 holds for the consumer of the external service (lemma
  \<open>disaster_consumer_atomic\<close>) and fails for the consumer of the central service.
  A device-info report of the system \<open>ess1\<close> is delivered and the update of its inbox
  row to \<open>SUCCESS\<close> throws: the transaction is rolled back and the delivery is
  republished for a retry, the inbox row stays \<open>PENDING\<close>, but the row of
  \<open>report_transmit_logs\<close>, inserted through the pool, persists.  The retry, processed
  without a fault, inserts a second outbox row for the same report.
\<close>

theorem report_outbox_row_survives_rollback:
  "map rtl_status (report_transmit_logs (db
       (consumeReportMessage example_config 5 update_success_fails example_JSON_parse
          example_report_delivery empty_cs_state))) = [PENDING]
   \<and> map outbound_id (report_transmit_logs (db
       (consumeReportMessage example_config 5 update_success_fails example_JSON_parse
          example_report_delivery empty_cs_state))) = [''KR.a_5'']
   \<and> map mrl_status (mq_receive_logs (db
       (consumeReportMessage example_config 5 update_success_fails example_JSON_parse
          example_report_delivery empty_cs_state))) = [PENDING]
   \<and> channel (consumeReportMessage example_config 5 update_success_fails example_JSON_parse
          example_report_delivery empty_cs_state) =
       [Publish REPORT_RETRY_EXCHANGE REPORT_ROUTING_KEY (content example_report_delivery)
          (Some 1), Ack 1]
   \<and> map outbound_id (report_transmit_logs (db
       (consumeReportMessage example_config 6 no_fault example_JSON_parse
          (example_report_delivery\<lparr>x_retry_count := Some 1, deliveryTag := 2\<rparr>)
          (consumeReportMessage example_config 5 update_success_fails example_JSON_parse
             example_report_delivery empty_cs_state)))) = [''KR.a_5'', ''KR.a_6'']
   \<and> map mrl_status (mq_receive_logs (db
       (consumeReportMessage example_config 6 no_fault example_JSON_parse
          (example_report_delivery\<lparr>x_retry_count := Some 1, deliveryTag := 2\<rparr>)
          (consumeReportMessage example_config 5 update_success_fails example_JSON_parse
             example_report_delivery empty_cs_state)))) = [PENDING, SUCCESS]"
proof -
  have s5: "show_nat 5 = ''5''" and s6: "show_nat 6 = ''6''"
    by (simp_all add: show_nat.simps)
  let ?raw = "\<lparr>rr_identifier = None, rr_json = ''{\"deviceList\":[]}''\<rparr>"
  let ?row = "\<lparr>rtl_id = 1, rtl_mq_receive_log_id = 1, rtl_type = DEVICE_INFO,
               outbound_id = ''KR.a_5'', external_system_name = ''ess1'',
               rtl_raw_message = ?raw, rtl_status = PENDING, rtl_retry_count = 0,
               error_detail = None, report_sequence = 1, rtl_updated_at = None\<rparr>"
  have c1: "consumeReportMessage example_config 5 update_success_fails example_JSON_parse
              example_report_delivery empty_cs_state =
            empty_cs_state
              \<lparr>db := empty_cs_db
                 \<lparr>mq_receive_logs :=
                    [\<lparr>mrl_id = 1, mrl_raw_message = example_device_info_content,
                      mrl_status = PENDING, mrl_error_message = None\<rparr>],
                  report_transmit_logs := [?row], mrl_seq := 1, rtl_seq := 1\<rparr>,
               channel := [Publish REPORT_RETRY_EXCHANGE REPORT_ROUTING_KEY
                  example_device_info_content (Some 1), Ack 1]\<rparr>"
    by (simp add: consumeReportMessage_def report_tx_def report_retry_def rtl_create_def
          mq_create_def report_type_of_def update_success_fails_def rabbitmq_MAX_RETRIES_def
          client_begin_def new_client_def example_JSON_parse_def example_report_delivery_def
          example_config_def empty_cs_state_def empty_cs_db_def s5 Let_def)
  show ?thesis
    unfolding c1
    by (simp add: consumeReportMessage_def report_tx_def report_retry_def no_fault_def
          example_JSON_parse_def example_report_delivery_def example_config_def
          report_type_of_def rtl_create_def mq_create_def empty_cs_state_def empty_cs_db_def
          client_query_def client_begin_def new_client_def client_commit_def client_view_def
          Let_def s6)
qed

text \<open>
  A content that carries a type only is rejected by the \<open>NOT NULL\<close> constraint of
  \<open>external_system_name\<close>: no outbox row is written and the delivery is republished.
\<close>

lemma report_without_fields_rejected:
  "report_transmit_logs (db
       (consumeReportMessage example_config 5 no_fault example_JSON_parse
          (example_report_delivery\<lparr>content := example_type_only_content\<rparr>) empty_cs_state)) = []
   \<and> map mrl_status (mq_receive_logs (db
       (consumeReportMessage example_config 5 no_fault example_JSON_parse
          (example_report_delivery\<lparr>content := example_type_only_content\<rparr>) empty_cs_state)))
     = [PENDING]
   \<and> channel (consumeReportMessage example_config 5 no_fault example_JSON_parse
          (example_report_delivery\<lparr>content := example_type_only_content\<rparr>) empty_cs_state) =
       [Publish REPORT_RETRY_EXCHANGE REPORT_ROUTING_KEY example_type_only_content (Some 1),
        Ack 1]"
  by (simp add: consumeReportMessage_def report_tx_def report_retry_def rtl_create_def
        mq_create_def no_fault_def rabbitmq_MAX_RETRIES_def client_begin_def new_client_def
        example_JSON_parse_def example_report_delivery_def example_type_only_content_def
        example_device_info_content_def example_result_content_def
        empty_cs_state_def empty_cs_db_def Let_def)

section \<open>Properties of the report poller\<close>

lemma rtl_updateStatusById_counters:
  "map (\<lambda>r. (rtl_id r, rtl_retry_count r, report_sequence r))
       (report_transmit_logs (rtl_updateStatusById now logId st e d)) =
   map (\<lambda>r. (rtl_id r, rtl_retry_count r, report_sequence r)) (report_transmit_logs d)"
  by (simp add: rtl_updateStatusById_def)

lemma processFailure_counters:
  "map (\<lambda>r. (rtl_id r, rtl_retry_count r, report_sequence r))
       (report_transmit_logs (db (processFailure now flt logId n reason s))) =
   map (\<lambda>r. (rtl_id r, rtl_retry_count r, report_sequence r)) (report_transmit_logs (db s))"
  by (simp add: processFailure_def Let_def rtl_updateStatusById_counters split: option.splits)

lemma processMessage_catch_counters:
  "map (\<lambda>r. (rtl_id r, rtl_retry_count r, report_sequence r))
       (report_transmit_logs (db (processMessage_catch now flt logId err s))) =
   map (\<lambda>r. (rtl_id r, rtl_retry_count r, report_sequence r)) (report_transmit_logs (db s))"
  by (simp add: processMessage_catch_def Let_def rtl_updateStatusById_counters
        split: option.splits)

lemma send_db [simp]: "db (send f s) = db s"
  by (simp add: send_def)

lemma processMessage_counters:
  "map (\<lambda>r. (rtl_id r, rtl_retry_count r, report_sequence r))
       (report_transmit_logs (db (processMessage now flt log s))) =
   map (\<lambda>r. (rtl_id r, rtl_retry_count r, report_sequence r)) (report_transmit_logs (db s))"
  by (simp add: processMessage_def Let_def rtl_updateStatusById_counters
        processMessage_catch_counters split: option.splits sum.splits)

lemma processMessages_counters:
  "map (\<lambda>r. (rtl_id r, rtl_retry_count r, report_sequence r))
       (report_transmit_logs (db (processMessages now flt ms s))) =
   map (\<lambda>r. (rtl_id r, rtl_retry_count r, report_sequence r)) (report_transmit_logs (db s))"
  by (induction ms arbitrary: s) (simp_all add: processMessage_counters)

text \<open>
  No step of the report pipeline of the central service changes \<open>retry_count\<close> or
  \<open>report_sequence\<close> of a row: not a run of the poller, not a failure (NACK or ACK
  timeout), not an ACK.
\<close>

lemma reportTransmitWorker_run_counters:
  "map (\<lambda>r. (rtl_id r, rtl_retry_count r, report_sequence r))
       (report_transmit_logs (db (reportTransmitWorker_run now flt s))) =
   map (\<lambda>r. (rtl_id r, rtl_retry_count r, report_sequence r)) (report_transmit_logs (db s))"
  by (simp add: reportTransmitWorker_run_def processMessages_counters split: option.splits)

lemma processAck_counters:
  "map (\<lambda>r. (rtl_id r, rtl_retry_count r, report_sequence r))
       (report_transmit_logs (db (processAck now flt parsed s))) =
   map (\<lambda>r. (rtl_id r, rtl_retry_count r, report_sequence r)) (report_transmit_logs (db s))"
  by (simp add: processAck_def Let_def processFailure_counters rtl_updateStatusById_counters
        split: option.splits)

text \<open>
  Claim C1 fails on the code.  A \<open>PENDING\<close> row with \<open>retry_count = 0\<close> and
  \<open>report_sequence = 1\<close> is sent by a run of the poller; its ACK timer fires
  (\<open>processFailure\<close> sets it back to \<open>PENDING\<close>) and the next run sends it again;
  no ACK arrives, and three later runs pick the row up as stale \<open>SENT\<close> and send it
  again.  All five frames carry sequence 1, the row still has \<open>retry_count = 0\<close> and
  \<open>report_sequence = 1\<close>, and after five sends the row is \<open>SENT\<close>, not \<open>FAILED\<close>.
\<close>

theorem report_poller_never_increments:
  "map frame_seq (sent_frames
      (reportTransmitWorker_run 80000 no_fault
        (reportTransmitWorker_run 60000 no_fault
          (reportTransmitWorker_run 40000 no_fault
            (reportTransmitWorker_run 20000 no_fault
              (processFailure 10100 no_fault 1 0 ack_timeout_reason
                (reportTransmitWorker_run 100 no_fault (example_report_state 0)))))))) =
     [Some 1, Some 1, Some 1, Some 1, Some 1]
   \<and> map rtl_retry_count (report_transmit_logs (db
      (reportTransmitWorker_run 80000 no_fault
        (reportTransmitWorker_run 60000 no_fault
          (reportTransmitWorker_run 40000 no_fault
            (reportTransmitWorker_run 20000 no_fault
              (processFailure 10100 no_fault 1 0 ack_timeout_reason
                (reportTransmitWorker_run 100 no_fault (example_report_state 0))))))))) = [0]
   \<and> map report_sequence (report_transmit_logs (db
      (reportTransmitWorker_run 80000 no_fault
        (reportTransmitWorker_run 60000 no_fault
          (reportTransmitWorker_run 40000 no_fault
            (reportTransmitWorker_run 20000 no_fault
              (processFailure 10100 no_fault 1 0 ack_timeout_reason
                (reportTransmitWorker_run 100 no_fault (example_report_state 0))))))))) = [1]
   \<and> map rtl_status (report_transmit_logs (db
      (reportTransmitWorker_run 80000 no_fault
        (reportTransmitWorker_run 60000 no_fault
          (reportTransmitWorker_run 40000 no_fault
            (reportTransmitWorker_run 20000 no_fault
              (processFailure 10100 no_fault 1 0 ack_timeout_reason
                (reportTransmitWorker_run 100 no_fault (example_report_state 0))))))))) = [SENT]"
  by (simp add: reportTransmitWorker_run_def processFailure_def processMessage_def
        rtl_findUnprocessedMessages_def rtl_unprocessed_def rtl_findById_def
        rtl_updateStatusById_def report_cap_def send_def frame_seq_def no_fault_def
        example_report_state_def example_report_row_def empty_cs_state_def empty_cs_db_def
        reportTransmit_MAX_RETRIES_def TRANSMISSION_TIMEOUT_def Let_def)

section \<open>Retry limits of the two outboxes\<close>

text \<open>
  Claim C3 as stated fails for the outbox of the external service: a \<open>PENDING\<close> row
  whose retry counter equals \<open>MAX_RETRIES\<close> (3), with the socket of its subscriber
  active and no fault, is marked \<open>FAILED\<close> and nothing is emitted.
\<close>

theorem no_attempt_at_max_retries_counterexample:
  "map dtl_retry_count (disaster_transmit_logs (es_database (example_es_state 3))) =
     [disasterTransmit_MAX_RETRIES]
   \<and> getSocketBySystemId 2 (example_es_state 3) = Some example_socket
   \<and> emitted (es_processMessage 100 no_fault 1 (example_es_state 3)) = []
   \<and> map dtl_status (disaster_transmit_logs (es_database
         (es_processMessage 100 no_fault 1 (example_es_state 3)))) = [FAILED]"
  by (simp add: es_processMessage_def dtl_findById_def dtl_updateStatusById_def
        getSocketBySystemId_def example_es_state_def example_es_db_def no_fault_def
        disasterTransmit_MAX_RETRIES_def Let_def)

text \<open>
  Claim C3, amended.  In the central service a report row whose retry counter is at
  most \<open>MAX_RETRIES\<close> is sent (connected, CAP built, no fault) and becomes \<open>SENT\<close>;
  above \<open>MAX_RETRIES\<close> it becomes \<open>FAILED\<close> and nothing is sent.  In the external
  service a non-terminal disaster row whose retry counter is below \<open>MAX_RETRIES\<close> is
  emitted to the active socket of its subscriber and becomes \<open>SENT\<close>; at
  \<open>MAX_RETRIES\<close> or above it becomes \<open>FAILED\<close> and nothing is emitted.
\<close>

theorem retry_limit_of_each_outbox:
  "(rtl_retry_count log \<le> reportTransmit_MAX_RETRIES \<and> connected s
      \<and> report_cap flt log (db s) = Inr cap \<and> flt RtUpdateSent = None
    \<longrightarrow> sent_frames (processMessage now flt log s) =
          sent_frames s @ [\<lparr>frame_messageId = MESSAGE_IDS (rtl_type log),
                             frame_xml = Report cap\<rparr>]
        \<and> db (processMessage now flt log s) =
            rtl_updateStatusById now (rtl_id log) SENT None (db s))
   \<and> (rtl_retry_count log > reportTransmit_MAX_RETRIES \<and> flt RtUpdateFailed = None
    \<longrightarrow> sent_frames (processMessage now flt log s) = sent_frames s
        \<and> db (processMessage now flt log s) =
            rtl_updateStatusById now (rtl_id log) FAILED (Some msg_max_retries) (db s))
   \<and> (flt' DtFindById = None \<and> flt' DtUpdateStatus = None \<and> flt' DtEmit = None
      \<and> dtl_findById logId (es_database t) = Some row
      \<and> dtl_status row \<noteq> SUCCESS \<and> dtl_status row \<noteq> FAILED
      \<and> dtl_retry_count row < disasterTransmit_MAX_RETRIES
      \<and> getSocketBySystemId (external_system_id row) t = Some sock
    \<longrightarrow> emitted (es_processMessage now flt' logId t) =
          emitted t @ [(sock, \<lparr>ep_logId = logId, ep_identifier = dtl_identifier row,
                               ep_rawMessage = dtl_raw_message row\<rparr>)]
        \<and> es_database (es_processMessage now flt' logId t) =
            dtl_updateStatusById now logId SENT (es_database t))
   \<and> (flt' DtFindById = None \<and> flt' DtUpdateStatus = None
      \<and> dtl_findById logId (es_database t) = Some row
      \<and> dtl_status row \<noteq> SUCCESS \<and> dtl_status row \<noteq> FAILED
      \<and> dtl_retry_count row \<ge> disasterTransmit_MAX_RETRIES
    \<longrightarrow> emitted (es_processMessage now flt' logId t) = emitted t
        \<and> es_database (es_processMessage now flt' logId t) =
            dtl_updateStatusById now logId FAILED (es_database t))"
proof (intro conjI impI)
  assume a: "rtl_retry_count log \<le> reportTransmit_MAX_RETRIES \<and> connected s
      \<and> report_cap flt log (db s) = Inr cap \<and> flt RtUpdateSent = None"
  then have s': "processMessage now flt log s =
      (send \<lparr>frame_messageId = MESSAGE_IDS (rtl_type log), frame_xml = Report cap\<rparr> s)
        \<lparr>db := rtl_updateStatusById now (rtl_id log) SENT None (db s),
         activeTimeouts := removeAll (rtl_id log) (activeTimeouts s) @ [rtl_id log]\<rparr>"
    by (simp add: processMessage_def Let_def send_def)
  show "sent_frames (processMessage now flt log s) =
          sent_frames s @ [\<lparr>frame_messageId = MESSAGE_IDS (rtl_type log),
                             frame_xml = Report cap\<rparr>]"
    using a by (simp add: s' send_def)
  show "db (processMessage now flt log s) =
          rtl_updateStatusById now (rtl_id log) SENT None (db s)"
    by (simp add: s')
next
  assume a: "rtl_retry_count log > reportTransmit_MAX_RETRIES \<and> flt RtUpdateFailed = None"
  then have s': "processMessage now flt log s =
      processMessage_catch now flt (rtl_id log) (Error msg_max_retries) s"
    by (simp add: processMessage_def Let_def)
  show "sent_frames (processMessage now flt log s) = sent_frames s"
    using a by (simp add: s' processMessage_catch_def Let_def)
  show "db (processMessage now flt log s) =
          rtl_updateStatusById now (rtl_id log) FAILED (Some msg_max_retries) (db s)"
    using a by (simp add: s' processMessage_catch_def Let_def Error_def)
next
  assume a: "flt' DtFindById = None \<and> flt' DtUpdateStatus = None \<and> flt' DtEmit = None
      \<and> dtl_findById logId (es_database t) = Some row
      \<and> dtl_status row \<noteq> SUCCESS \<and> dtl_status row \<noteq> FAILED
      \<and> dtl_retry_count row < disasterTransmit_MAX_RETRIES
      \<and> getSocketBySystemId (external_system_id row) t = Some sock"
  show "emitted (es_processMessage now flt' logId t) =
          emitted t @ [(sock, \<lparr>ep_logId = logId, ep_identifier = dtl_identifier row,
                               ep_rawMessage = dtl_raw_message row\<rparr>)]"
    using a by (simp add: es_processMessage_def Let_def)
  show "es_database (es_processMessage now flt' logId t) =
          dtl_updateStatusById now logId SENT (es_database t)"
    using a by (simp add: es_processMessage_def Let_def)
next
  assume a: "flt' DtFindById = None \<and> flt' DtUpdateStatus = None
      \<and> dtl_findById logId (es_database t) = Some row
      \<and> dtl_status row \<noteq> SUCCESS \<and> dtl_status row \<noteq> FAILED
      \<and> dtl_retry_count row \<ge> disasterTransmit_MAX_RETRIES"
  show "emitted (es_processMessage now flt' logId t) = emitted t"
    using a by (simp add: es_processMessage_def Let_def)
  show "es_database (es_processMessage now flt' logId t) =
          dtl_updateStatusById now logId FAILED (es_database t)"
    using a by (simp add: es_processMessage_def Let_def)
qed

theorem retry_limit_of_each_outbox_witness:
  "map frame_seq (sent_frames (processMessage 100 no_fault (example_report_row 3)
       (example_report_state 3))) = [Some 1]
   \<and> map rtl_status (report_transmit_logs (db (processMessage 100 no_fault
       (example_report_row 3) (example_report_state 3)))) = [SENT]
   \<and> sent_frames (processMessage 100 no_fault (example_report_row 4)
       (example_report_state 4)) = []
   \<and> map rtl_status (report_transmit_logs (db (processMessage 100 no_fault
       (example_report_row 4) (example_report_state 4)))) = [FAILED]
   \<and> map fst (emitted (es_processMessage 100 no_fault 1 (example_es_state 2))) =
       [example_socket]
   \<and> map dtl_status (disaster_transmit_logs (es_database
       (es_processMessage 100 no_fault 1 (example_es_state 2)))) = [SENT]
   \<and> emitted (es_processMessage 100 no_fault 1 (example_es_state 4)) = []
   \<and> map dtl_status (disaster_transmit_logs (es_database
       (es_processMessage 100 no_fault 1 (example_es_state 4)))) = [FAILED]"
proof -
  let ?cap = "\<lparr>rep_transMsgId = ''KR.a_1700000000000'', rep_transMsgSeq = 1,
                rep_cap_identifier = ''KR.a_1700000000000'', rep_cap_msgType = ''Alert'',
                rep_cap_eventCode = ''DIS'', rep_cap_valueName = ''DEVICE_DATA'',
                rep_cap_references = None, rep_cap_value = ''{\"deviceList\":[]}''\<rparr>"
  let ?row = "\<lambda>n. \<lparr>dtl_id = 1, dtl_mq_receive_log_id = 1, external_system_id = 2,
          dtl_identifier = ''A1'', dtl_raw_message = example_payload, dtl_status = PENDING,
          dtl_retry_count = n, dtl_updated_at = None\<rparr>"
  have cs3: "sent_frames (processMessage 100 no_fault (example_report_row 3)
                (example_report_state 3)) =
               [\<lparr>frame_messageId = ETS_NFY_DEVICE_INFO, frame_xml = Report ?cap\<rparr>]
             \<and> db (processMessage 100 no_fault (example_report_row 3) (example_report_state 3)) =
               rtl_updateStatusById 100 1 SENT None (db (example_report_state 3))"
    using retry_limit_of_each_outbox [where log = "example_report_row 3"
        and s = "example_report_state 3" and flt = no_fault and cap = ?cap and now = 100
        and flt' = no_fault and logId = 1 and t = "example_es_state 2" and row = "?row 2"
        and sock = example_socket]
    by (simp add: example_report_row_def example_report_state_def empty_cs_state_def
          empty_cs_db_def no_fault_def report_cap_def reportTransmit_MAX_RETRIES_def Let_def)
  have cs4: "sent_frames (processMessage 100 no_fault (example_report_row 4)
                (example_report_state 4)) = []
             \<and> db (processMessage 100 no_fault (example_report_row 4) (example_report_state 4)) =
               rtl_updateStatusById 100 1 FAILED (Some msg_max_retries)
                 (db (example_report_state 4))"
    using retry_limit_of_each_outbox [where log = "example_report_row 4"
        and s = "example_report_state 4" and flt = no_fault and cap = ?cap and now = 100
        and flt' = no_fault and logId = 1 and t = "example_es_state 2" and row = "?row 2"
        and sock = example_socket]
    by (simp add: example_report_row_def example_report_state_def empty_cs_state_def
          empty_cs_db_def no_fault_def reportTransmit_MAX_RETRIES_def)
  have es2: "emitted (es_processMessage 100 no_fault 1 (example_es_state 2)) =
               [(example_socket, \<lparr>ep_logId = 1, ep_identifier = ''A1'',
                                   ep_rawMessage = example_payload\<rparr>)]
             \<and> es_database (es_processMessage 100 no_fault 1 (example_es_state 2)) =
               dtl_updateStatusById 100 1 SENT (es_database (example_es_state 2))"
    using retry_limit_of_each_outbox [where log = "example_report_row 3"
        and s = "example_report_state 3" and flt = no_fault and cap = ?cap and now = 100
        and flt' = no_fault and logId = 1 and t = "example_es_state 2" and row = "?row 2"
        and sock = example_socket]
    by (simp add: example_es_state_def example_es_db_def no_fault_def dtl_findById_def
          getSocketBySystemId_def disasterTransmit_MAX_RETRIES_def)
  have es4: "emitted (es_processMessage 100 no_fault 1 (example_es_state 4)) = []
             \<and> es_database (es_processMessage 100 no_fault 1 (example_es_state 4)) =
               dtl_updateStatusById 100 1 FAILED (es_database (example_es_state 4))"
    using retry_limit_of_each_outbox [where log = "example_report_row 3"
        and s = "example_report_state 3" and flt = no_fault and cap = ?cap and now = 100
        and flt' = no_fault and logId = 1 and t = "example_es_state 4" and row = "?row 4"
        and sock = example_socket]
    by (simp add: example_es_state_def example_es_db_def no_fault_def dtl_findById_def
          disasterTransmit_MAX_RETRIES_def)
  show ?thesis
    using cs3 cs4 es2 es4
    by (simp add: frame_seq_def rtl_updateStatusById_def dtl_updateStatusById_def
          example_report_state_def example_report_row_def empty_cs_state_def empty_cs_db_def
          example_es_state_def example_es_db_def)
qed

section \<open>Properties of the inbound disaster pipeline\<close>

lemma client_view_new [simp]: "client_view new_client d = d"
  by (simp add: client_view_def new_client_def)




lemma send_connected:
  "connected s \<Longrightarrow> sent_frames (send f s) = sent_frames s @ [f]"
  by (simp add: send_def)

lemma send_channel [simp]: "channel (send f s) = channel s"
  by (simp add: send_def)






section \<open>Properties of the digest response\<close>

lemma replicate_numeral: "replicate (numeral k) x = x # replicate (pred_numeral k) x"
  by (simp add: numeral_eq_Suc)

lemma md5_hex_a1_words:
  "le_words (md5_pad (map (\<lambda>c. of_nat (of_char c)) ''a:b:c'')) =
     [979516001, 32867, 0, 0, 0, 0, 0, 0, 0, 0, 0, 0, 0, 0, 40, 0]"
  by (simp add: md5_pad_def le_bytes8_def replicate_numeral)

lemma md5_hex_a1:
  "md5_hex ''a:b:c'' = ''02cc8f08398a4f3113b554e8105ebe4c''"
  unfolding md5_hex_def md5_def md5_hex_a1_words
  by (simp add: md5_block_def md5_indices_def md5_step_def rotl32_def md5_K_def md5_s_def
        Let_def le_bytes4_def hex_def hex_digit_def)

lemma md5_hex_upper_a1_nonce_words:
  "le_words (md5_pad (map (\<lambda>c. of_nat (of_char c)) ''02CC8F08398A4F3113B554E8105EBE4C:d'')) =
     [1128477232, 942687800, 1094203699, 825443892, 893530929, 944059445, 1161113649,
     1127499074, 8414266, 0, 0, 0, 0, 0, 272, 0]"
  by (simp add: md5_pad_def le_bytes8_def replicate_numeral)

lemma md5_hex_upper_a1_nonce:
  "md5_hex ''02CC8F08398A4F3113B554E8105EBE4C:d'' = ''c46031167d5a839f0df57a0798417268''"
  unfolding md5_hex_def md5_def md5_hex_upper_a1_nonce_words
  by (simp add: md5_block_def md5_indices_def md5_step_def rotl32_def md5_K_def md5_s_def
        Let_def le_bytes4_def hex_def hex_digit_def)

lemma md5_hex_lower_a1_nonce_words:
  "le_words (md5_pad (map (\<lambda>c. of_nat (of_char c)) ''02cc8f08398a4f3113b554e8105ebe4c:d'')) =
     [1667445296, 942695992, 1631074611, 825452084, 895628081, 946156597, 1697984561,
     1664378210, 8414266, 0, 0, 0, 0, 0, 272, 0]"
  by (simp add: md5_pad_def le_bytes8_def replicate_numeral)

lemma md5_hex_lower_a1_nonce:
  "md5_hex ''02cc8f08398a4f3113b554e8105ebe4c:d'' = ''d8c773f804300158c31f8c90b095ada5''"
  unfolding md5_hex_def md5_def md5_hex_lower_a1_nonce_words
  by (simp add: md5_block_def md5_indices_def md5_step_def rotl32_def md5_K_def md5_s_def
        Let_def le_bytes4_def hex_def hex_digit_def)

lemma toUpperCase_a1:
  "toUpperCase ''02cc8f08398a4f3113b554e8105ebe4c'' = ''02CC8F08398A4F3113B554E8105EBE4C''"
  by (simp add: toUpperCase_def upper_char_def)

lemma toUpperCase_code_response:
  "toUpperCase ''c46031167d5a839f0df57a0798417268'' = ''C46031167D5A839F0DF57A0798417268''"
  by (simp add: toUpperCase_def upper_char_def)

lemma toUpperCase_spec_response:
  "toUpperCase ''d8c773f804300158c31f8c90b095ada5'' = ''D8C773F804300158C31F8C90B095ADA5''"
  by (simp add: toUpperCase_def upper_char_def)


lemma hex_digit_low: "hex_digit (b AND 15) \<in> set ''0123456789abcdef''"
proof -
  have "b AND 15 \<le> 15" by (rule word_and_le1)
  then have "unat (b AND 15) < 16" by (simp add: word_le_nat_alt)
  then show ?thesis unfolding hex_digit_def by (intro nth_mem) simp
qed

lemma hex_digit_high: "hex_digit (drop_bit 4 b) \<in> set ''0123456789abcdef''"
proof -
  have "unat b < 256" using unsigned_less [of b] by simp
  then have "unat (drop_bit 4 b) < 16" by (simp add: drop_bit_eq_div unat_div)
  then show ?thesis unfolding hex_digit_def by (intro nth_mem) simp
qed

lemma hex_chars: "c \<in> set (hex bs) \<Longrightarrow> c \<in> set ''0123456789abcdef''"
proof (induction bs)
  case Nil
  then show ?case by (simp add: hex_def)
next
  case (Cons b bs)
  from Cons.prems have "c = hex_digit (drop_bit 4 b) \<or> c = hex_digit (b AND 15)
      \<or> c \<in> set (hex bs)"
    by (simp add: hex_def)
  then show ?case using Cons.IH hex_digit_low [of b] hex_digit_high [of b] by blast
qed

lemma upper_hex_char:
  "c \<in> set ''0123456789abcdef'' \<Longrightarrow> upper_char c \<in> set ''0123456789ABCDEF''"
  unfolding upper_char_def by (elim set_ConsD [elim_format] disjE) simp_all

lemma md5_upper_chars: "set (md5_upper s) \<subseteq> set ''0123456789ABCDEF''"
proof
  fix c
  assume "c \<in> set (md5_upper s)"
  then obtain x where "x \<in> set (md5_hex s)" and "c = upper_char x"
    unfolding md5_upper_def toUpperCase_def by auto
  then show "c \<in> set ''0123456789ABCDEF''"
    using hex_chars upper_hex_char unfolding md5_hex_def by blast
qed

lemma length_hex: "length (hex bs) = 2 * length bs"
  by (induction bs) (simp_all add: hex_def)

lemma length_md5: "length (md5 m) = 16"
  by (simp add: md5_def le_bytes4_def split: prod.splits)

lemma length_md5_upper: "length (md5_upper s) = 32"
  by (simp add: md5_upper_def toUpperCase_def md5_hex_def length_hex length_md5)

text \<open>
  Claim C8, read as it is written (the hexadecimal MD5 of the inner string as
  \<open>digest('hex')\<close> returns it, only the outer result in upper case), fails: for
  \<open>destId = a\<close>, \<open>realm = b\<close>, \<open>password = c\<close> and \<open>nonce = d\<close> the code returns
  \<open>C46031167D5A839F0DF57A0798417268\<close> and the formula gives \<open>D8C773F804300158C31F8C90B095ADA5\<close>.
\<close>

theorem response_inner_digest_case_counterexample:
  "calculateResponse example_config ''b'' ''d'' = ''C46031167D5A839F0DF57A0798417268''
   \<and> spec_response ''a'' ''b'' ''c'' ''d'' = ''D8C773F804300158C31F8C90B095ADA5''
   \<and> calculateResponse example_config ''b'' ''d'' \<noteq> spec_response ''a'' ''b'' ''c'' ''d''"
proof -
  have c: "calculateResponse example_config ''b'' ''d'' = ''C46031167D5A839F0DF57A0798417268''"
    using md5_hex_a1 toUpperCase_a1 md5_hex_upper_a1_nonce toUpperCase_code_response
    by (simp add: calculateResponse_def md5_upper_def example_config_def Let_def)
  have s: "spec_response ''a'' ''b'' ''c'' ''d'' = ''D8C773F804300158C31F8C90B095ADA5''"
    using md5_hex_a1 md5_hex_lower_a1_nonce toUpperCase_spec_response
    by (simp add: spec_response_def)
  show ?thesis unfolding c s by simp
qed

text \<open>
  Claim C8, amended.  For every destination id, realm, password and nonce the
  response is the upper-case hexadecimal MD5 of the string formed by A1, a colon and
  the nonce, where A1 is the upper-case hexadecimal MD5 of \<open>destId:realm:password\<close>;
  it has 32 characters, all of them digits or the letters \<open>A\<close> to \<open>F\<close>.
\<close>

theorem response_is_upper_md5_of_upper_a1:
  "calculateResponse cfg realm nonce =
     toUpperCase (md5_hex (toUpperCase (md5_hex (DEST_ID cfg @ '':'' @ realm @ '':'' @
        PASSWORD cfg)) @ '':'' @ nonce))
   \<and> length (calculateResponse cfg realm nonce) = 32
   \<and> set (calculateResponse cfg realm nonce) \<subseteq> set ''0123456789ABCDEF''"
proof -
  have r: "calculateResponse cfg realm nonce =
      md5_upper (md5_upper (DEST_ID cfg @ '':'' @ realm @ '':'' @ PASSWORD cfg) @ '':'' @ nonce)"
    by (simp add: calculateResponse_def Let_def)
  show ?thesis
    unfolding r using length_md5_upper md5_upper_chars
    by (simp add: md5_upper_def)
qed

end
